theory Spec2Isabelle
  imports Main "HOL-Library.Word" "HOL-Library.Signed_Division"
begin

unbundle bit_operations_syntax

section \<open>Machine integers\<close>

text \<open>
  The analysis of \<^verbatim>\<open>lib/Analysis/AxisInfo.cpp\<close> stores every per-axis property and
  every constant in an \<^verbatim>\<open>int64_t\<close>. They are modelled as 64-bit words: \<open>+\<close>, \<open>-\<close> and
  \<open>*\<close> wrap around (what the compiled code does on signed overflow), \<open>sint\<close> reads the
  signed value, and the comparisons of \<^verbatim>\<open>int64_t\<close> are the signed ones (\<open><s\<close>, \<open>\<le>s\<close>).
  The alignment queries return \<^verbatim>\<open>unsigned\<close>, a 32-bit word with the unsigned order.
\<close>

type_synonym int64 = "64 word"
type_synonym uint32 = "32 word"

text \<open>
  C++ \<^verbatim>\<open>b % a\<close> and \<^verbatim>\<open>b / a\<close> on \<^verbatim>\<open>int64_t\<close> truncate towards zero. The two
  functions below are the operations where C++ defines them; the callers guard the
  divisor (\<open>gcdImpl\<close> tests \<^verbatim>\<open>a == 0\<close> first) or are given a checked version
  (\<open>checked_div\<close>, \<open>checked_rem\<close>).
\<close>

definition rem_i64 :: "int64 \<Rightarrow> int64 \<Rightarrow> int64" where
  "rem_i64 b a = word_of_int (sint b smod sint a)"

definition div_i64 :: "int64 \<Rightarrow> int64 \<Rightarrow> int64" where
  "div_i64 b a = word_of_int (sint b sdiv sint a)"

text \<open>\<^verbatim>\<open>std::max\<close> and \<^verbatim>\<open>std::min\<close> as the standard library defines them, on
  \<^verbatim>\<open>int64_t\<close> (signed order) and on \<^verbatim>\<open>unsigned\<close>.\<close>

definition std_max :: "int64 \<Rightarrow> int64 \<Rightarrow> int64" where
  "std_max a b = (if a <s b then b else a)"

definition std_min :: "int64 \<Rightarrow> int64 \<Rightarrow> int64" where
  "std_min a b = (if b <s a then b else a)"

definition std_max_unsigned :: "uint32 \<Rightarrow> uint32 \<Rightarrow> uint32" where
  "std_max_unsigned a b = (if a < b then b else a)"

definition std_min_unsigned :: "uint32 \<Rightarrow> uint32 \<Rightarrow> uint32" where
  "std_min_unsigned a b = (if b < a then b else a)"

text \<open>
  What can go wrong at run time: \<^verbatim>\<open>llvm_unreachable\<close>, an integer division whose divisor
  is zero or whose quotient does not fit (\<^verbatim>\<open>INT64_MIN / -1\<close>), both undefined in C++
  and a trap on the usual hardware, and the dereference of a lattice element that
  \<^verbatim>\<open>lookupLatticeElement\<close> did not find.
\<close>

datatype error = Unreachable | DivisionByZero | SignedOverflow | NullLatticeElement

definition INT64_MIN :: int64 where
  "INT64_MIN = word_of_int (- (2 ^ 63))"

definition checked_div :: "int64 \<Rightarrow> int64 \<Rightarrow> error + int64" where
  "checked_div l r =
     (if r = 0 then Inl DivisionByZero
      else if l = INT64_MIN \<and> r = - 1 then Inl SignedOverflow
      else Inr (div_i64 l r))"

definition checked_rem :: "int64 \<Rightarrow> int64 \<Rightarrow> error + int64" where
  "checked_rem l r =
     (if r = 0 then Inl DivisionByZero
      else if l = INT64_MIN \<and> r = - 1 then Inl SignedOverflow
      else Inr (rem_i64 l r))"

section \<open>The extended Euclidean algorithm\<close>

text \<open>
  \<^verbatim>\<open>gcdImpl(a, b, &x, &y)\<close> returns the gcd and writes the two Bezout coefficients
  through its pointer arguments; the model returns the triple. The recursion ends
  because the remainder is smaller in magnitude than the divisor; the termination proof
  comes after the definitions. The divisor is never 0 at \<^verbatim>\<open>b % a\<close> and \<^verbatim>\<open>b / a\<close>. The one pair
  at which C++ leaves them undefined, \<^verbatim>\<open>INT64_MIN\<close> and \<open>-1\<close>, has the remainder 0
  here; no property below is stated for negative arguments other than
  \<open>gcd(a, a) = a\<close>, \<open>gcd(a, 0) = a\<close>, \<open>gcd(0, b) = b\<close> and \<open>gcd(1, b) = 1\<close>, whose
  evaluation never reaches that pair.
\<close>

function gcdImpl :: "int64 \<Rightarrow> int64 \<Rightarrow> int64 \<times> int64 \<times> int64" where
  "gcdImpl a b =
     (if a = 0 then (b, 0, 1)
      else (case gcdImpl (rem_i64 b a) a of
              (g, x1, y1) \<Rightarrow> (g, y1 - div_i64 b a * x1, x1)))"
  by pat_completeness auto

text \<open>\<^verbatim>\<open>gcd(a, b)\<close> of the source; the name \<open>gcd\<close> is HOL's.\<close>

definition gcd64 :: "int64 \<Rightarrow> int64 \<Rightarrow> int64" where
  "gcd64 a b = fst (gcdImpl a b)"

section \<open>AxisInfo\<close>

text \<open>
  The class \<^verbatim>\<open>AxisInfo\<close> is declared in \<^verbatim>\<open>triton/Analysis/AxisInfo.h\<close>; its
  members below follow the uses in \<^verbatim>\<open>AxisInfo.cpp\<close>: three vectors of \<^verbatim>\<open>int64_t\<close>
  with one entry per axis and an optional constant. The default constructor
  \<^verbatim>\<open>AxisInfo()\<close> gives the three empty vectors and no constant.
\<close>

record AxisInfo =
  contiguity :: "int64 list"
  divisibility :: "int64 list"
  constancy :: "int64 list"
  constantValue :: "int64 option"

definition unknownAxisInfo :: AxisInfo where
  "unknownAxisInfo =
     \<lparr>contiguity = [], divisibility = [], constancy = [], constantValue = None\<rparr>"

definition getRank :: "AxisInfo \<Rightarrow> nat" where
  "getRank a = length (contiguity a)"

text \<open>
  Modelled from the spec: \<^verbatim>\<open>AxisInfo::known\<close> is declared in the header; the data
  model gives it as the rank-0 sentinel, which is also what \<^verbatim>\<open>visitOperation\<close> tests
  (\<^verbatim>\<open>curr.getRank() == 0\<close>).
\<close>

definition known :: "AxisInfo \<Rightarrow> bool" where
  "known a = (getRank a \<noteq> 0)"

text \<open>
  The accessors index a \<^verbatim>\<open>SmallVector\<close>. An index outside the vector is an assertion
  failure in the source and an unspecified value here; the statements about an entry
  take the axis inside the rank of a well-formed record, or read the same entry on both
  sides.
\<close>

definition getContiguity :: "AxisInfo \<Rightarrow> nat \<Rightarrow> int64" where
  "getContiguity a d = contiguity a ! d"

definition getDivisibility :: "AxisInfo \<Rightarrow> nat \<Rightarrow> int64" where
  "getDivisibility a d = divisibility a ! d"

definition getConstancy :: "AxisInfo \<Rightarrow> nat \<Rightarrow> int64" where
  "getConstancy a d = constancy a ! d"

text \<open>
  The constructor asserts that the three vectors have the same length
  (\<open>wellFormed\<close>); the data model adds that every entry is at least 1
  (\<open>entriesAtLeast 1\<close>, with the signed reading of the entries).
\<close>

definition wellFormed :: "AxisInfo \<Rightarrow> bool" where
  "wellFormed a =
     (length (divisibility a) = length (contiguity a) \<and>
      length (constancy a) = length (contiguity a))"

definition entriesAtLeast :: "int \<Rightarrow> AxisInfo \<Rightarrow> bool" where
  "entriesAtLeast n a =
     (list_all (\<lambda>x. n \<le> sint x) (contiguity a) \<and>
      list_all (\<lambda>x. n \<le> sint x) (divisibility a) \<and>
      list_all (\<lambda>x. n \<le> sint x) (constancy a))"

text \<open>\<^verbatim>\<open>AxisInfo::join\<close>: the gcd of both arguments for each dimension.\<close>

definition join :: "AxisInfo \<Rightarrow> AxisInfo \<Rightarrow> error + AxisInfo" where
  "join lhs rhs =
     (if \<not> known lhs \<and> known rhs then Inr rhs
      else if known lhs \<and> \<not> known rhs then Inr lhs
      else if known lhs \<and> known rhs then
        Inr \<lparr>contiguity =
               map (\<lambda>d. gcd64 (getContiguity lhs d) (getContiguity rhs d)) [0..<getRank lhs],
             divisibility =
               map (\<lambda>d. gcd64 (getDivisibility lhs d) (getDivisibility rhs d)) [0..<getRank lhs],
             constancy =
               map (\<lambda>d. gcd64 (getConstancy lhs d) (getConstancy rhs d)) [0..<getRank lhs],
             constantValue =
               (if constantValue lhs \<noteq> None \<and> constantValue rhs \<noteq> None \<and>
                   constantValue lhs = constantValue rhs
                then constantValue lhs else None)\<rparr>
      else Inl Unreachable)"

section \<open>Types, values and operations\<close>

text \<open>
  What the analysis reads of the instruction graph. A type is a ranked tensor, with its
  shape and the two attributes of its layout that the queries use
  (\<^verbatim>\<open>triton::gpu::getOrder\<close>, \<^verbatim>\<open>triton::gpu::getSizePerThread\<close>), or anything else
  (\<^verbatim>\<open>dyn_cast<RankedTensorType>\<close> fails; the tensors of this compiler are ranked, so
  \<^verbatim>\<open>dyn_cast<TensorType>\<close> succeeds on the same types). A value has a type and is an operation's
  result or a block argument; for a block argument the model keeps what
  \<^verbatim>\<open>getPessimisticValueState\<close> asks of it.
\<close>

record Layout =
  layoutOrder :: "nat list"
  sizePerThread :: "uint32 list"

datatype Type = RankedTensorType "int64 list" Layout | OtherType

datatype ParentOp = FuncOp "64 word option" | LLVMFuncOp "64 word option" | OtherParentOp

record BlockArgument =
  isEntryBlock :: bool
  parentOp :: ParentOp

record Value =
  valueId :: nat
  valueType :: Type
  blockArgument :: "BlockArgument option"

text \<open>
  Modelled from the spec: \<^verbatim>\<open>isContiguousDim\<close> and \<^verbatim>\<open>isConstantDim\<close> are static
  members of \<^verbatim>\<open>AxisInfoVisitor\<close> in the header. The spec reads them as "fully contiguous
  along axis d" and "fully constant along axis d": the run covers the axis extent.
\<close>

definition isContiguousDim :: "AxisInfo \<Rightarrow> int64 list \<Rightarrow> nat \<Rightarrow> bool" where
  "isContiguousDim info shape dim = (getContiguity info dim = shape ! dim)"

definition isConstantDim :: "AxisInfo \<Rightarrow> int64 list \<Rightarrow> nat \<Rightarrow> bool" where
  "isConstantDim info shape dim = (getConstancy info dim = shape ! dim)"

text \<open>
  Modelled from the spec: the hooks of the base class \<^verbatim>\<open>BinaryOpVisitorImpl\<close> that a
  visitor does not override are in the header; the spec gives 1 (no information) as the
  baseline of every per-axis property.
\<close>

definition BinaryOpVisitorImpl_getContiguity :: "AxisInfo \<Rightarrow> AxisInfo \<Rightarrow> nat \<Rightarrow> int64" where
  "BinaryOpVisitorImpl_getContiguity lhs rhs dim = 1"

definition BinaryOpVisitorImpl_getConstancy :: "AxisInfo \<Rightarrow> AxisInfo \<Rightarrow> nat \<Rightarrow> int64" where
  "BinaryOpVisitorImpl_getConstancy lhs rhs dim = 1"

section \<open>Transfer functions\<close>

text \<open>
  The binary visitors override four hooks, one per property; the hooks are what the
  source file defines and what is modelled here. The parameter \<^verbatim>\<open>op\<close> is kept where
  a hook reads it (the result type of a division or remainder).
\<close>

subsection \<open>AddOpAxisInfoVisitor and SubOpAxisInfoVisitor\<close>

definition AddOp_getContiguity :: "AxisInfo \<Rightarrow> AxisInfo \<Rightarrow> nat \<Rightarrow> int64" where
  "AddOp_getContiguity lhs rhs dim =
     std_max (gcd64 (getConstancy lhs dim) (getContiguity rhs dim))
             (gcd64 (getContiguity lhs dim) (getConstancy rhs dim))"

definition AddOp_getDivisibility :: "AxisInfo \<Rightarrow> AxisInfo \<Rightarrow> nat \<Rightarrow> int64" where
  "AddOp_getDivisibility lhs rhs dim = gcd64 (getDivisibility lhs dim) (getDivisibility rhs dim)"

definition AddOp_getConstancy :: "AxisInfo \<Rightarrow> AxisInfo \<Rightarrow> nat \<Rightarrow> int64" where
  "AddOp_getConstancy lhs rhs dim = gcd64 (getConstancy lhs dim) (getConstancy rhs dim)"

definition AddOp_getConstantValue :: "AxisInfo \<Rightarrow> AxisInfo \<Rightarrow> int64 option" where
  "AddOp_getConstantValue lhs rhs =
     (if constantValue lhs \<noteq> None \<and> constantValue rhs \<noteq> None
      then Some (the (constantValue lhs) + the (constantValue rhs)) else None)"

definition SubOp_getContiguity :: "AxisInfo \<Rightarrow> AxisInfo \<Rightarrow> nat \<Rightarrow> int64" where
  "SubOp_getContiguity lhs rhs dim =
     std_max (gcd64 (getConstancy lhs dim) (getContiguity rhs dim))
             (gcd64 (getContiguity lhs dim) (getConstancy rhs dim))"

definition SubOp_getDivisibility :: "AxisInfo \<Rightarrow> AxisInfo \<Rightarrow> nat \<Rightarrow> int64" where
  "SubOp_getDivisibility lhs rhs dim = gcd64 (getDivisibility lhs dim) (getDivisibility rhs dim)"

definition SubOp_getConstancy :: "AxisInfo \<Rightarrow> AxisInfo \<Rightarrow> nat \<Rightarrow> int64" where
  "SubOp_getConstancy lhs rhs dim = gcd64 (getConstancy lhs dim) (getConstancy rhs dim)"

definition SubOp_getConstantValue :: "AxisInfo \<Rightarrow> AxisInfo \<Rightarrow> int64 option" where
  "SubOp_getConstantValue lhs rhs =
     (if constantValue lhs \<noteq> None \<and> constantValue rhs \<noteq> None
      then Some (the (constantValue lhs) - the (constantValue rhs)) else None)"

subsection \<open>MulIOpAxisInfoVisitor\<close>

definition MulIOp_getContiguity :: "AxisInfo \<Rightarrow> AxisInfo \<Rightarrow> nat \<Rightarrow> int64" where
  "MulIOp_getContiguity lhs rhs dim =
     (let lhsContiguity =
            (if constantValue rhs \<noteq> None \<and> constantValue rhs = Some 1
             then getContiguity lhs dim else 1);
          rhsContiguity =
            (if constantValue lhs \<noteq> None \<and> constantValue lhs = Some 1
             then getContiguity rhs dim else 1)
      in std_max lhsContiguity rhsContiguity)"

definition MulIOp_getConstancy :: "AxisInfo \<Rightarrow> AxisInfo \<Rightarrow> nat \<Rightarrow> int64" where
  "MulIOp_getConstancy lhs rhs dim = gcd64 (getConstancy lhs dim) (getConstancy rhs dim)"

definition MulIOp_getDivisibility :: "AxisInfo \<Rightarrow> AxisInfo \<Rightarrow> nat \<Rightarrow> int64" where
  "MulIOp_getDivisibility lhs rhs dim = getDivisibility lhs dim * getDivisibility rhs dim"

definition MulIOp_getConstantValue :: "AxisInfo \<Rightarrow> AxisInfo \<Rightarrow> int64 option" where
  "MulIOp_getConstantValue lhs rhs =
     (if constantValue lhs \<noteq> None \<and> constantValue rhs \<noteq> None
      then Some (the (constantValue lhs) * the (constantValue rhs)) else None)"

subsection \<open>DivOpAxisInfoVisitor and RemOpAxisInfoVisitor\<close>

text \<open>The operation is represented by its result type, the only thing the hooks read.\<close>

definition DivOp_getContiguity :: "Type \<Rightarrow> AxisInfo \<Rightarrow> AxisInfo \<Rightarrow> nat \<Rightarrow> int64" where
  "DivOp_getContiguity resTy lhs rhs dim =
     (if constantValue rhs \<noteq> None \<and> the (constantValue rhs) = 1
      then getContiguity lhs dim else 1)"

definition DivOp_getConstancy :: "Type \<Rightarrow> AxisInfo \<Rightarrow> AxisInfo \<Rightarrow> nat \<Rightarrow> int64" where
  "DivOp_getConstancy resTy lhs rhs dim =
     (case resTy of
        OtherType \<Rightarrow> BinaryOpVisitorImpl_getConstancy lhs rhs dim
      | RankedTensorType shape encoding \<Rightarrow>
          (let constancy = gcd64 (getConstancy lhs dim) (getConstancy rhs dim)
           in if isContiguousDim lhs shape dim \<and> isConstantDim rhs shape dim
              then std_max constancy
                     (gcd64 (getContiguity lhs dim)
                        (gcd64 (getDivisibility lhs dim) (getDivisibility rhs dim)))
              else constancy))"

definition DivOp_getConstantValue :: "Type \<Rightarrow> AxisInfo \<Rightarrow> AxisInfo \<Rightarrow> error + int64 option" where
  "DivOp_getConstantValue resTy lhs rhs =
     (if constantValue lhs \<noteq> None \<and> constantValue rhs \<noteq> None
      then (case checked_div (the (constantValue lhs)) (the (constantValue rhs)) of
              Inl e \<Rightarrow> Inl e
            | Inr q \<Rightarrow> Inr (Some q))
      else Inr None)"

definition RemOp_getContiguity :: "Type \<Rightarrow> AxisInfo \<Rightarrow> AxisInfo \<Rightarrow> nat \<Rightarrow> int64" where
  "RemOp_getContiguity resTy lhs rhs dim =
     (case resTy of
        OtherType \<Rightarrow> BinaryOpVisitorImpl_getContiguity lhs rhs dim
      | RankedTensorType shape encoding \<Rightarrow>
          (let contiguity = 1
           in if isContiguousDim lhs shape dim \<and> isConstantDim rhs shape dim
              then std_max contiguity
                     (gcd64 (getContiguity lhs dim)
                        (gcd64 (getDivisibility lhs dim) (getDivisibility rhs dim)))
              else contiguity))"

definition RemOp_getDivisibility :: "Type \<Rightarrow> AxisInfo \<Rightarrow> AxisInfo \<Rightarrow> nat \<Rightarrow> int64" where
  "RemOp_getDivisibility resTy lhs rhs dim =
     gcd64 (getDivisibility lhs dim) (getDivisibility rhs dim)"

definition RemOp_getConstancy :: "Type \<Rightarrow> AxisInfo \<Rightarrow> AxisInfo \<Rightarrow> nat \<Rightarrow> int64" where
  "RemOp_getConstancy resTy lhs rhs dim = gcd64 (getConstancy lhs dim) (getConstancy rhs dim)"

definition RemOp_getConstantValue :: "Type \<Rightarrow> AxisInfo \<Rightarrow> AxisInfo \<Rightarrow> error + int64 option" where
  "RemOp_getConstantValue resTy lhs rhs =
     (if constantValue lhs \<noteq> None \<and> constantValue rhs \<noteq> None
      then (case checked_rem (the (constantValue lhs)) (the (constantValue rhs)) of
              Inl e \<Rightarrow> Inl e
            | Inr q \<Rightarrow> Inr (Some q))
      else Inr None)"

subsection \<open>CmpOpAxisInfoVisitor\<close>

datatype CmpIPredicate = eq | ne | slt | sle | sgt | sge | ult | ule | ugt | uge

record CmpIOp =
  getPredicate :: CmpIPredicate
  cmpResultType :: Type

definition notGePredicate :: "CmpIPredicate \<Rightarrow> bool" where
  "notGePredicate predicate = (predicate \<noteq> sge \<and> predicate \<noteq> uge)"

definition notSePredicate :: "CmpIPredicate \<Rightarrow> bool" where
  "notSePredicate predicate = (predicate \<noteq> sle \<and> predicate \<noteq> ule)"

fun compare :: "CmpIPredicate \<Rightarrow> int64 \<Rightarrow> int64 \<Rightarrow> bool" where
  "compare eq lhs rhs = (lhs = rhs)"
| "compare ne lhs rhs = (lhs \<noteq> rhs)"
| "compare slt lhs rhs = (lhs <s rhs)"
| "compare sle lhs rhs = (lhs \<le>s rhs)"
| "compare sgt lhs rhs = (rhs <s lhs)"
| "compare sge lhs rhs = (rhs \<le>s lhs)"
| "compare ult lhs rhs = (lhs < rhs)"
| "compare ule lhs rhs = (lhs \<le> rhs)"
| "compare ugt lhs rhs = (rhs < lhs)"
| "compare uge lhs rhs = (rhs \<le> lhs)"

text \<open>The body of the loop over the axes: the constancy hint of axis \<open>d\<close>.\<close>

definition CmpOp_constHint ::
  "CmpIPredicate \<Rightarrow> int64 list \<Rightarrow> AxisInfo \<Rightarrow> AxisInfo \<Rightarrow> nat \<Rightarrow> int64" where
  "CmpOp_constHint predicate shape lhsInfo rhsInfo d =
     (if constantValue lhsInfo \<noteq> None \<and> constantValue rhsInfo \<noteq> None
      then getConstancy lhsInfo d
      else
        (let constHint = gcd64 (getConstancy lhsInfo d) (getConstancy rhsInfo d)
         in if (notGePredicate predicate \<and>
                 (isContiguousDim lhsInfo shape d \<and> isConstantDim rhsInfo shape d)) \<or>
               (notSePredicate predicate \<and>
                 (isConstantDim lhsInfo shape d \<and> isContiguousDim rhsInfo shape d))
            then std_max constHint
                   (gcd64 (getContiguity lhsInfo d)
                      (gcd64 (getDivisibility lhsInfo d) (getDivisibility rhsInfo d)))
            else constHint))"

text \<open>
  The loop pushes one entry per axis on each vector. \<^verbatim>\<open>constantValue\<close> is assigned
  inside the loop, so it stays empty for a tensor of rank 0.
\<close>

definition CmpOp_getAxisInfo :: "CmpIOp \<Rightarrow> AxisInfo list \<Rightarrow> AxisInfo" where
  "CmpOp_getAxisInfo op operands =
     (case cmpResultType op of
        OtherType \<Rightarrow> unknownAxisInfo
      | RankedTensorType shape encoding \<Rightarrow>
          (let rank = length shape;
               lhsInfo = operands ! 0;
               rhsInfo = operands ! 1
           in \<lparr>contiguity = replicate rank 1,
               divisibility = replicate rank 1,
               constancy = map (CmpOp_constHint (getPredicate op) shape lhsInfo rhsInfo) [0..<rank],
               constantValue =
                 (if rank \<noteq> 0 \<and> constantValue lhsInfo \<noteq> None \<and> constantValue rhsInfo \<noteq> None
                  then Some (if compare (getPredicate op) (the (constantValue lhsInfo))
                                  (the (constantValue rhsInfo))
                             then 1 else 0)
                  else None)\<rparr>))"

subsection \<open>SelectOpAxisInfoVisitor\<close>

definition SelectOp_getAxisInfo :: "Type \<Rightarrow> AxisInfo list \<Rightarrow> AxisInfo" where
  "SelectOp_getAxisInfo resTy operands =
     (case resTy of
        OtherType \<Rightarrow> unknownAxisInfo
      | RankedTensorType shape encoding \<Rightarrow>
          (let rank = length shape;
               condConstancy = constancy (operands ! 0);
               lhsInfo = operands ! 1;
               rhsInfo = operands ! 2
           in if constantValue (operands ! 0) \<noteq> None then
                (if constantValue (operands ! 0) = Some 0 then
                   \<lparr>contiguity = contiguity rhsInfo, divisibility = divisibility rhsInfo,
                    constancy = constancy rhsInfo, constantValue = constantValue rhsInfo\<rparr>
                 else
                   \<lparr>contiguity = contiguity lhsInfo, divisibility = divisibility lhsInfo,
                    constancy = constancy lhsInfo, constantValue = constantValue lhsInfo\<rparr>)
              else
                \<lparr>contiguity =
                   map (\<lambda>d. std_min (gcd64 (getContiguity lhsInfo d) (condConstancy ! d))
                                    (gcd64 (getContiguity rhsInfo d) (condConstancy ! d)))
                       [0..<rank],
                 divisibility =
                   map (\<lambda>d. std_min (getDivisibility lhsInfo d) (getDivisibility rhsInfo d))
                       [0..<rank],
                 constancy =
                   map (\<lambda>d. std_min (gcd64 (getConstancy lhsInfo d) (condConstancy ! d))
                                    (gcd64 (getConstancy rhsInfo d) (condConstancy ! d)))
                       [0..<rank],
                 constantValue =
                   (if constantValue lhsInfo \<noteq> None \<and> constantValue rhsInfo \<noteq> None \<and>
                       constantValue lhsInfo = constantValue rhsInfo
                    then constantValue lhsInfo else None)\<rparr>))"

section \<open>The analysis entry point\<close>

text \<open>
  \<^verbatim>\<open>AxisInfo::getPessimisticValueState\<close>. The three hints are declared
  \<^verbatim>\<open>auto ... = 1\<close>, that is \<^verbatim>\<open>int\<close>: the zero-extended 64-bit value of the attribute
  \<^verbatim>\<open>tt.divisibility\<close> is cut to 32 bits and sign-extended when the vector of
  \<^verbatim>\<open>int64_t\<close> is filled. The rank is the rank of a tensor type and 1 otherwise.
\<close>

definition typeRank :: "Type \<Rightarrow> nat" where
  "typeRank ty = (case ty of RankedTensorType shape encoding \<Rightarrow> length shape | OtherType \<Rightarrow> 1)"

definition hintOfAttr :: "64 word option \<Rightarrow> int64" where
  "hintOfAttr attr = (case attr of None \<Rightarrow> 1 | Some v \<Rightarrow> scast (ucast v :: 32 word))"

definition pessimisticWith :: "nat \<Rightarrow> int64 \<Rightarrow> AxisInfo" where
  "pessimisticWith rank divHint =
     \<lparr>contiguity = replicate rank 1, divisibility = replicate rank divHint,
      constancy = replicate rank 1, constantValue = None\<rparr>"

definition getPessimisticValueState :: "Value \<Rightarrow> AxisInfo" where
  "getPessimisticValueState v =
     (let rank = typeRank (valueType v) in
      case blockArgument v of
        None \<Rightarrow> pessimisticWith rank 1
      | Some blockArg \<Rightarrow>
          if isEntryBlock blockArg then
            (case parentOp blockArg of
               FuncOp attr \<Rightarrow> pessimisticWith rank (hintOfAttr attr)
             | LLVMFuncOp attr \<Rightarrow> pessimisticWith rank (hintOfAttr attr)
             | OtherParentOp \<Rightarrow> unknownAxisInfo)
          else pessimisticWith rank 1)"

text \<open>
  Modelled from the spec: the lattice element of a value and the store of lattice
  elements belong to the dataflow framework (\<^verbatim>\<open>LatticeElement\<close>,
  \<^verbatim>\<open>getLatticeElement\<close>, \<^verbatim>\<open>markAllPessimisticFixpoint\<close>), which is not part of the
  source file. The spec describes a slot per value that holds an AxisInfo, starts with no
  information, is updated only through \<open>join\<close>, and can be marked permanently fixed with
  the pessimistic default, after which it is never refined.
\<close>

record LatticeElement =
  latticeValue :: AxisInfo
  atFixpoint :: bool

type_synonym LatticeStore = "Value \<Rightarrow> LatticeElement option"

datatype ChangeResult = NoChange | Change

definition changeOr :: "ChangeResult \<Rightarrow> ChangeResult \<Rightarrow> ChangeResult" where
  "changeOr a b = (if a = Change \<or> b = Change then Change else NoChange)"

definition getLatticeElement :: "LatticeStore \<Rightarrow> Value \<Rightarrow> LatticeElement" where
  "getLatticeElement st v =
     (case st v of
        Some e \<Rightarrow> e
      | None \<Rightarrow> \<lparr>latticeValue = unknownAxisInfo, atFixpoint = False\<rparr>)"

definition LatticeElement_join ::
  "LatticeElement \<Rightarrow> AxisInfo \<Rightarrow> error + ChangeResult \<times> LatticeElement" where
  "LatticeElement_join e cur =
     (if atFixpoint e then Inr (NoChange, e)
      else (case join (latticeValue e) cur of
              Inl err \<Rightarrow> Inl err
            | Inr newValue \<Rightarrow>
                Inr (if newValue = latticeValue e then NoChange else Change,
                     e\<lparr>latticeValue := newValue\<rparr>)))"

definition markPessimisticFixpoint :: "Value \<Rightarrow> LatticeElement \<Rightarrow> ChangeResult \<times> LatticeElement" where
  "markPessimisticFixpoint v e =
     (let fixed = \<lparr>latticeValue = getPessimisticValueState v, atFixpoint = True\<rparr>
      in (if e = fixed then NoChange else Change, fixed))"

fun markAllPessimisticFixpoint :: "Value list \<Rightarrow> LatticeStore \<Rightarrow> ChangeResult \<times> LatticeStore" where
  "markAllPessimisticFixpoint [] st = (NoChange, st)"
| "markAllPessimisticFixpoint (v # vs) st =
     (case markPessimisticFixpoint v (getLatticeElement st v) of
        (c, e) \<Rightarrow>
          (case markAllPessimisticFixpoint vs (st(v \<mapsto> e)) of
             (c', st') \<Rightarrow> (changeOr c c', st')))"

text \<open>
  \<^verbatim>\<open>AxisInfoAnalysis::visitOperation\<close>. The dispatch \<^verbatim>\<open>visitors.apply(op, operands)\<close>
  is in the header; its result \<^verbatim>\<open>curr\<close> is the parameter \<open>cur\<close>, and so are the results of the
  operation. The loop joins it into the lattice element of every result.
\<close>

fun joinResults ::
  "AxisInfo \<Rightarrow> Value list \<Rightarrow> ChangeResult \<Rightarrow> LatticeStore \<Rightarrow> error + ChangeResult \<times> LatticeStore" where
  "joinResults cur [] result st = Inr (result, st)"
| "joinResults cur (v # vs) result st =
     (case LatticeElement_join (getLatticeElement st v) cur of
        Inl err \<Rightarrow> Inl err
      | Inr (c, e) \<Rightarrow> joinResults cur vs (changeOr result c) (st(v \<mapsto> e)))"

definition visitOperation ::
  "AxisInfo \<Rightarrow> Value list \<Rightarrow> LatticeStore \<Rightarrow> error + ChangeResult \<times> LatticeStore" where
  "visitOperation cur results st =
     (if getRank cur = 0 then Inr (markAllPessimisticFixpoint results st)
      else joinResults cur results NoChange st)"

text \<open>A run of the driver after some point: the visits it makes, in order.\<close>

fun visitAll :: "(AxisInfo \<times> Value list) list \<Rightarrow> LatticeStore \<Rightarrow> error + LatticeStore" where
  "visitAll [] st = Inr st"
| "visitAll ((cur, results) # visits) st =
     (case visitOperation cur results st of
        Inl err \<Rightarrow> Inl err
      | Inr (c, st') \<Rightarrow> visitAll visits st')"

section \<open>Alignment queries\<close>

text \<open>
  \<^verbatim>\<open>lookupLatticeElement\<close> returns a null pointer for a value without a lattice
  element; the queries dereference it. The results are \<^verbatim>\<open>unsigned\<close>: the
  \<^verbatim>\<open>int64_t\<close> minimum is converted on assignment in \<^verbatim>\<open>getPtrAlignment\<close>, and
  \<^verbatim>\<open>std::max<unsigned>\<close> converts the constancy before it compares in
  \<^verbatim>\<open>getMaskAlignment\<close>.
\<close>

definition lookupValue :: "LatticeStore \<Rightarrow> Value \<Rightarrow> error + AxisInfo" where
  "lookupValue st v = (case st v of None \<Rightarrow> Inl NullLatticeElement | Some e \<Rightarrow> Inr (latticeValue e))"

definition getPtrAlignment :: "LatticeStore \<Rightarrow> Value \<Rightarrow> error + uint32" where
  "getPtrAlignment st ptr =
     (case valueType ptr of
        OtherType \<Rightarrow> Inr 1
      | RankedTensorType shape layout \<Rightarrow>
          (case lookupValue st ptr of
             Inl err \<Rightarrow> Inl err
           | Inr axisInfo \<Rightarrow>
               (let order = layoutOrder layout;
                    maxMultiple = getDivisibility axisInfo (order ! 0);
                    maxContig = getContiguity axisInfo (order ! 0)
                in Inr (ucast (std_min maxMultiple maxContig)))))"

definition getMaskAlignment :: "LatticeStore \<Rightarrow> Value \<Rightarrow> error + uint32" where
  "getMaskAlignment st maskValue =
     (case valueType maskValue of
        OtherType \<Rightarrow> Inr 1
      | RankedTensorType shape layout \<Rightarrow>
          (let maskOrder = layoutOrder layout in
           case lookupValue st maskValue of
             Inl err \<Rightarrow> Inl err
           | Inr maskAxis \<Rightarrow>
               Inr (std_max_unsigned (ucast (getConstancy maskAxis (maskOrder ! 0))) 1)))"

definition getPtrVectorSize :: "LatticeStore \<Rightarrow> Value \<Rightarrow> error + uint32" where
  "getPtrVectorSize st ptr =
     (case valueType ptr of
        OtherType \<Rightarrow> Inr 1
      | RankedTensorType shape layout \<Rightarrow>
          (let order = layoutOrder layout in
           case getPtrAlignment st ptr of
             Inl err \<Rightarrow> Inl err
           | Inr align \<Rightarrow>
               (let contigPerThread = sizePerThread layout ! (order ! 0);
                    vec = std_min_unsigned align contigPerThread
                in Inr (std_min_unsigned (ucast (shape ! (order ! 0))) vec))))"

section \<open>Example records\<close>

text \<open>The two operands of the worked addition example: (contiguity, divisibility,
  constancy) = (4, 8, 1) and (1, 4, 1) on one axis.\<close>

definition exampleA :: AxisInfo where
  "exampleA = \<lparr>contiguity = [4], divisibility = [8], constancy = [1], constantValue = None\<rparr>"

definition exampleB :: AxisInfo where
  "exampleB = \<lparr>contiguity = [1], divisibility = [4], constancy = [1], constantValue = None\<rparr>"

text \<open>
  An operand that is one contiguous run along an axis of extent 4 and starts at a
  multiple of 4, and an operand that is constant along that axis (a broadcast run-time
  scalar: no constant value is known).
\<close>

definition contiguousOperand :: AxisInfo where
  "contiguousOperand =
     \<lparr>contiguity = [4], divisibility = [4], constancy = [1], constantValue = None\<rparr>"

definition constantOperand :: AxisInfo where
  "constantOperand =
     \<lparr>contiguity = [1], divisibility = [4], constancy = [4], constantValue = None\<rparr>"

definition exampleLayout :: Layout where
  "exampleLayout = \<lparr>layoutOrder = [0], sizePerThread = [1]\<rparr>"

definition tensor4 :: Type where
  "tensor4 = RankedTensorType [4] exampleLayout"

text \<open>
  An operand of divisibility \<open>2\<^sup>3\<^sup>2\<close> without a constant value, as the product of a
  value of divisibility 1 and the constant 4294967296 is.
\<close>

definition overflowOperand :: AxisInfo where
  "overflowOperand =
     \<lparr>contiguity = [1], divisibility = [4294967296], constancy = [1], constantValue = None\<rparr>"

text \<open>
  A tensor of shape [32] whose lattice element has divisibility 16, contiguity 8 and
  constancy 4 along its only axis, with 4 elements per thread, and a scalar result.
\<close>

definition ptrValue :: Value where
  "ptrValue =
     \<lparr>valueId = 1,
      valueType = RankedTensorType [32] \<lparr>layoutOrder = [0], sizePerThread = [4]\<rparr>,
      blockArgument = None\<rparr>"

definition scalarValue :: Value where
  "scalarValue = \<lparr>valueId = 2, valueType = OtherType, blockArgument = None\<rparr>"

definition ptrInfo :: AxisInfo where
  "ptrInfo = \<lparr>contiguity = [8], divisibility = [16], constancy = [4], constantValue = None\<rparr>"

definition exampleStore :: LatticeStore where
  "exampleStore = Map.empty(ptrValue \<mapsto> \<lparr>latticeValue = ptrInfo, atFixpoint = False\<rparr>)"

section \<open>Termination of the Euclidean algorithm\<close>

lemma smod_between:
  "(0 \<le> k \<longrightarrow> 0 \<le> (k::int) smod l \<and> k smod l \<le> k) \<and>
   (k \<le> 0 \<longrightarrow> k \<le> k smod l \<and> k smod l \<le> 0)"
proof -
  have "\<bar>k\<bar> mod \<bar>l\<bar> \<le> \<bar>k\<bar>"
    by (rule zmod_le_nonneg_dividend) simp
  moreover have "0 \<le> \<bar>k\<bar> mod \<bar>l\<bar>"
    by (cases "l = 0") simp_all
  ultimately show ?thesis
    by (cases "k = 0"; cases "0 < k") (simp_all add: smod_int_alt_def)
qed

lemma smod_abs_less: "l \<noteq> 0 \<Longrightarrow> \<bar>(k::int) smod l\<bar> < \<bar>l\<bar>"
  by (simp add: smod_int_alt_def abs_mult abs_sgn_eq)

lemma sint_word_of_int_i64:
  "- (2 ^ 63) \<le> k \<Longrightarrow> k < 2 ^ 63 \<Longrightarrow> sint (word_of_int k :: int64) = k"
  by (simp add: sint_sbintrunc' signed_take_bit_int_eq_self)

lemma sint_i64_bounds: "- (2 ^ 63) \<le> sint (w :: int64) \<and> sint w < 2 ^ 63"
  using sint_ge [of w] sint_lt [of w] by simp

lemma sint_rem_i64: "sint (rem_i64 b a) = sint b smod sint a"
proof -
  note smod_between [of "sint b" "sint a"]
  moreover have "- (2 ^ 63) \<le> sint b" and "sint b < 2 ^ 63"
    using sint_i64_bounds [of b] by simp_all
  ultimately have "- (2 ^ 63) \<le> sint b smod sint a \<and> sint b smod sint a < 2 ^ 63"
    by linarith
  then show ?thesis unfolding rem_i64_def by (simp add: sint_word_of_int_i64)
qed

termination gcdImpl
proof (relation "measure (\<lambda>(a, b). nat \<bar>sint a\<bar>)")
  show "wf (measure (\<lambda>(a, b). nat \<bar>sint a\<bar>))" by simp
next
  fix a b :: int64
  assume "a \<noteq> 0"
  then have "sint a \<noteq> 0" by (simp add: signed_eq_0_iff)
  then have "\<bar>sint b smod sint a\<bar> < \<bar>sint a\<bar>" by (rule smod_abs_less)
  then show "((rem_i64 b a, a), (a, b)) \<in> measure (\<lambda>(a, b). nat \<bar>sint a\<bar>)"
    by (simp add: sint_rem_i64)
qed

declare gcdImpl.simps [simp del]

section \<open>Properties of gcd\<close>

lemma gcd64_rec: "gcd64 a b = (if a = 0 then b else gcd64 (rem_i64 b a) a)"
  unfolding gcd64_def by (subst gcdImpl.simps) (simp split: prod.split)

lemma rem_i64_zero_left [simp]: "rem_i64 0 a = 0"
  by (simp add: rem_i64_def)

lemma rem_i64_same [simp]: "rem_i64 a a = 0"
  by (simp add: rem_i64_def smod_int_alt_def)

lemma rem_i64_one [simp]: "rem_i64 b 1 = 0"
  by (simp add: rem_i64_def smod_int_alt_def)

lemma gcd64_zero_left [simp]: "gcd64 0 b = b"
  by (subst gcd64_rec) simp

lemma gcd64_zero_right [simp]: "gcd64 a 0 = a"
  by (subst gcd64_rec) simp

lemma gcd64_same [simp]: "gcd64 a a = a"
  by (subst gcd64_rec) simp

lemma gcd64_one_left [simp]: "gcd64 1 b = 1"
  by (subst gcd64_rec) simp

text \<open>On non-negative arguments the program's gcd is the mathematical one.\<close>

lemma sint_gcd64:
  "0 \<le> sint a \<Longrightarrow> 0 \<le> sint b \<Longrightarrow> sint (gcd64 a b) = gcd (sint a) (sint b)"
proof (induction a b rule: gcdImpl.induct)
  case (1 a b)
  show ?case
  proof (cases "a = 0")
    case True
    with "1.prems" show ?thesis by simp
  next
    case False
    then have nz: "sint a \<noteq> 0" by (simp add: signed_eq_0_iff)
    with "1.prems" have pos: "0 < sint a" by simp
    have r: "sint (rem_i64 b a) = sint b mod sint a"
      using "1.prems" pos by (cases "sint b = 0") (simp_all add: sint_rem_i64 smod_int_alt_def)
    then have "0 \<le> sint (rem_i64 b a)" using pos by simp
    from "1.IH" [OF False this "1.prems"(1)]
    have "sint (gcd64 (rem_i64 b a) a) = gcd (sint b mod sint a) (sint a)"
      by (simp add: r)
    also have "\<dots> = gcd (sint a) (sint b)"
      by (metis gcd.commute gcd_red_int)
    finally show ?thesis using False by (subst gcd64_rec) simp
  qed
qed

lemma gcd64_commute:
  assumes "0 \<le> sint a" "0 \<le> sint b"
  shows "gcd64 a b = gcd64 b a"
proof -
  have "sint (gcd64 a b) = sint (gcd64 b a)"
    using assms by (simp add: sint_gcd64 gcd.commute)
  then show ?thesis by (rule signed_word_eqI)
qed

lemma sint_std_max: "sint (std_max a b) = max (sint a) (sint b)"
  by (simp add: std_max_def word_sless_alt max_def)

lemma sint_std_min: "sint (std_min a b) = min (sint a) (sint b)"
  by (simp add: std_min_def word_sless_alt min_def)

section \<open>Properties of join\<close>

lemma map_gcd64_commute:
  assumes "list_all (\<lambda>x. 0 \<le> sint x) xs" "list_all (\<lambda>x. 0 \<le> sint x) ys"
    and "length xs = n" "length ys = n"
  shows "map (\<lambda>d. gcd64 (xs ! d) (ys ! d)) [0..<n] = map (\<lambda>d. gcd64 (ys ! d) (xs ! d)) [0..<n]"
proof (rule map_cong [OF refl])
  fix d assume "d \<in> set [0..<n]"
  then have "d < length xs" "d < length ys" using assms by simp_all
  then have "0 \<le> sint (xs ! d)" "0 \<le> sint (ys ! d)"
    using assms(1,2) by (simp_all add: list_all_length)
  then show "gcd64 (xs ! d) (ys ! d) = gcd64 (ys ! d) (xs ! d)"
    by (rule gcd64_commute)
qed

lemma map_nth_upto: "length ys = n \<Longrightarrow> map ((!) ys) [0..<n] = ys"
  using map_nth [of ys] by simp

lemma join_idempotent: "wellFormed a \<Longrightarrow> known a \<Longrightarrow> join a a = Inr a"
  by (cases a)
    (simp add: join_def known_def getRank_def wellFormed_def getContiguity_def
      getDivisibility_def getConstancy_def map_nth_upto)

lemma join_unknown_left: "known a \<Longrightarrow> join unknownAxisInfo a = Inr a"
  by (simp add: join_def known_def getRank_def unknownAxisInfo_def)

lemma join_commute:
  assumes "known a" "known b" "wellFormed a" "wellFormed b" "getRank a = getRank b"
    and "entriesAtLeast 0 a" "entriesAtLeast 0 b"
  shows "join a b = join b a"
proof -
  let ?n = "getRank a"
  have len: "length (contiguity a) = ?n" "length (contiguity b) = ?n"
    "length (divisibility a) = ?n" "length (divisibility b) = ?n"
    "length (constancy a) = ?n" "length (constancy b) = ?n"
    using assms(3,4,5) by (simp_all add: wellFormed_def getRank_def)
  have c: "map (\<lambda>d. gcd64 (contiguity a ! d) (contiguity b ! d)) [0..<?n] =
           map (\<lambda>d. gcd64 (contiguity b ! d) (contiguity a ! d)) [0..<?n]"
    using assms(6,7) len by (intro map_gcd64_commute) (simp_all add: entriesAtLeast_def)
  have d: "map (\<lambda>d. gcd64 (divisibility a ! d) (divisibility b ! d)) [0..<?n] =
           map (\<lambda>d. gcd64 (divisibility b ! d) (divisibility a ! d)) [0..<?n]"
    using assms(6,7) len by (intro map_gcd64_commute) (simp_all add: entriesAtLeast_def)
  have k: "map (\<lambda>d. gcd64 (constancy a ! d) (constancy b ! d)) [0..<?n] =
           map (\<lambda>d. gcd64 (constancy b ! d) (constancy a ! d)) [0..<?n]"
    using assms(6,7) len by (intro map_gcd64_commute) (simp_all add: entriesAtLeast_def)
  show ?thesis
    using assms(1,2,5) c d k
    by (auto simp add: join_def getContiguity_def getDivisibility_def getConstancy_def)
qed

lemma gcd64_numeral_examples:
  "gcd64 4 1 = 1" "gcd64 1 4 = 1" "gcd64 8 4 = 4" "gcd64 4 8 = 4" "gcd64 4 4 = 4" "gcd64 12 18 = 6"
  by (simp_all add: gcd64_rec [of 4] gcd64_rec [of 8] gcd64_rec [of 12] gcd64_rec [of 6]
      rem_i64_def smod_int_alt_def)

text \<open>
  C4. On well-formed known records join is idempotent and has the unknown record as a
  left unit; on known records of equal rank whose entries are not negative it is
  commutative; and the underlying gcd satisfies \<open>gcd(x, 0) = x\<close> and
  \<open>gcd(x, y) = gcd(y, x)\<close> for all \<open>x, y \<ge> 0\<close>. The records of the data model have
  entries at least 1, so they satisfy the hypothesis on the entries; the symmetry of
  the gcd is the claim's, for non-negative arguments.
\<close>

theorem join_commutative_idempotent:
  "(known a \<and> wellFormed a \<longrightarrow> join a a = Inr a \<and> join unknownAxisInfo a = Inr a) \<and>
   (known a \<and> known b \<and> wellFormed a \<and> wellFormed b \<and> getRank a = getRank b \<and>
      entriesAtLeast 0 a \<and> entriesAtLeast 0 b \<longrightarrow> join a b = join b a) \<and>
   (0 \<le> sint x \<and> 0 \<le> sint y \<longrightarrow> gcd64 x 0 = x \<and> gcd64 x y = gcd64 y x)"
  using join_idempotent [of a] join_unknown_left [of a] join_commute [of a b]
    gcd64_commute [of x y]
  by simp

theorem join_commutative_idempotent_witness:
  "join exampleA exampleB =
     Inr \<lparr>contiguity = [1], divisibility = [4], constancy = [1], constantValue = None\<rparr> \<and>
   join exampleB exampleA = join exampleA exampleB \<and>
   join exampleA exampleA = Inr exampleA \<and>
   join unknownAxisInfo exampleA = Inr exampleA \<and>
   gcd64 12 0 = 12 \<and> gcd64 12 18 = 6 \<and> gcd64 18 12 = 6"
  using join_commutative_idempotent [of exampleA exampleB 12 18]
  by (simp add: exampleA_def exampleB_def known_def getRank_def wellFormed_def
      entriesAtLeast_def join_def getContiguity_def getDivisibility_def getConstancy_def
      gcd64_numeral_examples)

section \<open>Elementwise addition and subtraction\<close>

lemma entry_bounds:
  assumes "wellFormed a" "entriesAtLeast n a" "d < getRank a"
  shows "n \<le> sint (getContiguity a d)" "n \<le> sint (getDivisibility a d)"
    "n \<le> sint (getConstancy a d)"
  using assms
  by (simp_all add: wellFormed_def entriesAtLeast_def getRank_def getContiguity_def
      getDivisibility_def getConstancy_def list_all_length)

lemma AddOp_getConstantValue_cases:
  "AddOp_getConstantValue lhs rhs =
     (case constantValue lhs of None \<Rightarrow> None
      | Some l \<Rightarrow> (case constantValue rhs of None \<Rightarrow> None | Some r \<Rightarrow> Some (l + r)))"
  by (simp add: AddOp_getConstantValue_def split: option.split)

lemma SubOp_getConstantValue_cases:
  "SubOp_getConstantValue lhs rhs =
     (case constantValue lhs of None \<Rightarrow> None
      | Some l \<Rightarrow> (case constantValue rhs of None \<Rightarrow> None | Some r \<Rightarrow> Some (l - r)))"
  by (simp add: SubOp_getConstantValue_def split: option.split)

lemma AddOp_example:
  "AddOp_getContiguity exampleA exampleB 0 = 1 \<and>
   AddOp_getDivisibility exampleA exampleB 0 = 4 \<and>
   AddOp_getConstancy exampleA exampleB 0 = 1"
  by (simp add: AddOp_getContiguity_def AddOp_getDivisibility_def AddOp_getConstancy_def
      exampleA_def exampleB_def getContiguity_def getDivisibility_def getConstancy_def
      gcd64_numeral_examples std_max_def)

text \<open>
  C5, the worked example as the claim states it: the operands (4, 8, 1) and (1, 4, 1)
  are said to yield contiguity 4. The visitor computes
  \<open>max(gcd(1, 1), gcd(4, 1)) = max(1, 1) = 1\<close>.
\<close>

theorem AddOp_example_counterexample:
  "AddOp_getContiguity exampleA exampleB 0 = 1 \<and>
   AddOp_getContiguity exampleA exampleB 0 \<noteq> 4"
  by (simp add: AddOp_getContiguity_def exampleA_def exampleB_def getContiguity_def
      getConstancy_def gcd64_numeral_examples std_max_def)

text \<open>
  C5, amended. For operands whose entries are not negative, the add and the sub visitors
  give, along each axis \<open>d\<close>, contiguity \<open>max(gcd(constL, contR), gcd(contL, constR))\<close>,
  divisibility \<open>gcd(divL, divR)\<close> and constancy \<open>gcd(constL, constR)\<close>, with the
  mathematical gcd and maximum of the signed values; the constant is the
  \<^verbatim>\<open>int64_t\<close> sum (resp. difference) of the operands' constants exactly when both are
  present; and the operands (4, 8, 1) and (1, 4, 1) yield contiguity 1, divisibility 4,
  constancy 1.
\<close>

theorem AddOp_SubOp_transfer:
  "(wellFormed lhs \<and> wellFormed rhs \<and> entriesAtLeast 0 lhs \<and> entriesAtLeast 0 rhs \<and>
    d < getRank lhs \<and> d < getRank rhs \<longrightarrow>
      sint (AddOp_getContiguity lhs rhs d) =
        max (gcd (sint (getConstancy lhs d)) (sint (getContiguity rhs d)))
            (gcd (sint (getContiguity lhs d)) (sint (getConstancy rhs d))) \<and>
      sint (AddOp_getDivisibility lhs rhs d) =
        gcd (sint (getDivisibility lhs d)) (sint (getDivisibility rhs d)) \<and>
      sint (AddOp_getConstancy lhs rhs d) =
        gcd (sint (getConstancy lhs d)) (sint (getConstancy rhs d)) \<and>
      sint (SubOp_getContiguity lhs rhs d) =
        max (gcd (sint (getConstancy lhs d)) (sint (getContiguity rhs d)))
            (gcd (sint (getContiguity lhs d)) (sint (getConstancy rhs d))) \<and>
      sint (SubOp_getDivisibility lhs rhs d) =
        gcd (sint (getDivisibility lhs d)) (sint (getDivisibility rhs d)) \<and>
      sint (SubOp_getConstancy lhs rhs d) =
        gcd (sint (getConstancy lhs d)) (sint (getConstancy rhs d))) \<and>
   AddOp_getConstantValue lhs rhs =
     (case constantValue lhs of None \<Rightarrow> None
      | Some l \<Rightarrow> (case constantValue rhs of None \<Rightarrow> None | Some r \<Rightarrow> Some (l + r))) \<and>
   SubOp_getConstantValue lhs rhs =
     (case constantValue lhs of None \<Rightarrow> None
      | Some l \<Rightarrow> (case constantValue rhs of None \<Rightarrow> None | Some r \<Rightarrow> Some (l - r))) \<and>
   AddOp_getContiguity exampleA exampleB 0 = 1 \<and>
   AddOp_getDivisibility exampleA exampleB 0 = 4 \<and>
   AddOp_getConstancy exampleA exampleB 0 = 1"
  (is "(?H \<longrightarrow> ?hooks) \<and> _")
proof -
  have ?hooks if ?H
  proof -
    from that have wf: "wellFormed lhs" "wellFormed rhs"
      and nn: "entriesAtLeast 0 lhs" "entriesAtLeast 0 rhs"
      and d: "d < getRank lhs" "d < getRank rhs"
      by simp_all
    note l = entry_bounds [OF wf(1) nn(1) d(1)]
    note r = entry_bounds [OF wf(2) nn(2) d(2)]
    show ?thesis
      by (simp add: AddOp_getContiguity_def AddOp_getDivisibility_def AddOp_getConstancy_def
          SubOp_getContiguity_def SubOp_getDivisibility_def SubOp_getConstancy_def
          sint_std_max sint_gcd64 l r)
  qed
  then show ?thesis
    using AddOp_getConstantValue_cases [of lhs rhs] SubOp_getConstantValue_cases [of lhs rhs]
      AddOp_example
    by blast
qed

theorem AddOp_SubOp_transfer_witness:
  "sint (AddOp_getContiguity contiguousOperand constantOperand 0) = 4 \<and>
   sint (AddOp_getDivisibility contiguousOperand constantOperand 0) = 4 \<and>
   sint (AddOp_getConstancy contiguousOperand constantOperand 0) = 1 \<and>
   sint (SubOp_getContiguity contiguousOperand constantOperand 0) = 4 \<and>
   sint (SubOp_getDivisibility contiguousOperand constantOperand 0) = 4 \<and>
   sint (SubOp_getConstancy contiguousOperand constantOperand 0) = 1 \<and>
   AddOp_getConstantValue contiguousOperand constantOperand = None \<and>
   AddOp_getConstantValue (exampleA\<lparr>constantValue := Some 5\<rparr>)
     (exampleB\<lparr>constantValue := Some 7\<rparr>) = Some 12 \<and>
   SubOp_getConstantValue (exampleA\<lparr>constantValue := Some 5\<rparr>)
     (exampleB\<lparr>constantValue := Some 7\<rparr>) = Some (- 2)"
  using AddOp_SubOp_transfer [of contiguousOperand constantOperand 0]
    AddOp_SubOp_transfer [of "exampleA\<lparr>constantValue := Some 5\<rparr>"
      "exampleB\<lparr>constantValue := Some 7\<rparr>" 0]
  by (simp add: contiguousOperand_def constantOperand_def wellFormed_def entriesAtLeast_def
      getRank_def getContiguity_def getDivisibility_def getConstancy_def)

section \<open>Multiplication\<close>

lemma MulIOp_getContiguity_cases:
  "MulIOp_getContiguity lhs rhs d =
     (if constantValue rhs = Some 1 \<and> constantValue lhs = Some 1
      then std_max (getContiguity lhs d) (getContiguity rhs d)
      else if constantValue rhs = Some 1 then std_max (getContiguity lhs d) 1
      else if constantValue lhs = Some 1 then std_max 1 (getContiguity rhs d)
      else 1)"
  by (simp add: MulIOp_getContiguity_def std_max_def)

lemma MulIOp_getConstantValue_cases:
  "MulIOp_getConstantValue lhs rhs =
     (case constantValue lhs of None \<Rightarrow> None
      | Some l \<Rightarrow> (case constantValue rhs of None \<Rightarrow> None | Some r \<Rightarrow> Some (l * r)))"
  by (simp add: MulIOp_getConstantValue_def split: option.split)

text \<open>The product of the divisibilities is exact as long as it fits in 63 bits.\<close>

lemma MulIOp_getDivisibility_exact:
  assumes "- (2 ^ 63) \<le> sint (getDivisibility lhs d) * sint (getDivisibility rhs d)"
    and "sint (getDivisibility lhs d) * sint (getDivisibility rhs d) < 2 ^ 63"
  shows "sint (MulIOp_getDivisibility lhs rhs d) =
         sint (getDivisibility lhs d) * sint (getDivisibility rhs d)"
proof -
  have "sint (MulIOp_getDivisibility lhs rhs d) =
        signed_take_bit 63 (sint (getDivisibility lhs d) * sint (getDivisibility rhs d))"
    by (simp add: MulIOp_getDivisibility_def sint_word_ariths)
  also have "\<dots> = sint (getDivisibility lhs d) * sint (getDivisibility rhs d)"
    using assms by (intro signed_take_bit_int_eq_self) simp_all
  finally show ?thesis .
qed

text \<open>
  C6. The hook \<^verbatim>\<open>MulIOpAxisInfoVisitor::getDivisibility\<close> multiplies in \<^verbatim>\<open>int64_t\<close>.
  For two operands of divisibility \<open>2\<^sup>3\<^sup>2\<close> the exact product is \<open>2\<^sup>6\<^sup>4\<close>; the hook
  returns 0.
\<close>

theorem MulIOp_getDivisibility_overflow:
  "sint (getDivisibility overflowOperand 0) * sint (getDivisibility overflowOperand 0) = 2 ^ 64 \<and>
   MulIOp_getDivisibility overflowOperand overflowOperand 0 = 0"
  by (simp add: MulIOp_getDivisibility_def overflowOperand_def getDivisibility_def)

section \<open>Entries stay positive\<close>

lemma gcd64_positive:
  assumes "1 \<le> sint a" "1 \<le> sint b"
  shows "1 \<le> sint (gcd64 a b)"
proof -
  have "sint (gcd64 a b) = gcd (sint a) (sint b)"
    using assms by (simp add: sint_gcd64)
  moreover have "gcd (sint a) (sint b) \<noteq> 0"
    using assms by simp
  moreover have "0 \<le> gcd (sint a) (sint b)"
    by simp
  ultimately show ?thesis by linarith
qed

lemma sint_gcd64_positive:
  "1 \<le> sint a \<Longrightarrow> 1 \<le> sint b \<Longrightarrow> sint (gcd64 a b) = gcd (sint a) (sint b)"
  by (simp add: sint_gcd64)

lemma sint_gcd64_nested:
  assumes "1 \<le> sint a" "1 \<le> sint b" "1 \<le> sint c"
  shows "sint (gcd64 a (gcd64 b c)) = gcd (sint a) (gcd (sint b) (sint c))"
    and "1 \<le> sint (gcd64 a (gcd64 b c))"
proof -
  have inner: "1 \<le> sint (gcd64 b c)"
    using assms(2,3) by (rule gcd64_positive)
  have "sint (gcd64 a (gcd64 b c)) = gcd (sint a) (sint (gcd64 b c))"
    using assms(1) inner by (rule sint_gcd64_positive)
  also have "sint (gcd64 b c) = gcd (sint b) (sint c)"
    using assms(2,3) by (rule sint_gcd64_positive)
  finally show "sint (gcd64 a (gcd64 b c)) = gcd (sint a) (gcd (sint b) (sint c))" .
  show "1 \<le> sint (gcd64 a (gcd64 b c))"
    using assms(1) inner by (rule gcd64_positive)
qed

lemma list_all_map_gcd64_positive:
  assumes "list_all (\<lambda>x. 1 \<le> sint x) xs" "list_all (\<lambda>x. 1 \<le> sint x) ys"
    and "length xs = n" "length ys = n"
  shows "list_all (\<lambda>x. 1 \<le> sint x) (map (\<lambda>d. gcd64 (xs ! d) (ys ! d)) [0..<n])"
  using assms by (auto simp add: list_all_length intro: gcd64_positive)

text \<open>The join of two records with entries at least 1 has entries at least 1.\<close>

lemma join_entriesAtLeast_1:
  assumes "wellFormed a" "wellFormed b" "getRank a = getRank b"
    and "entriesAtLeast 1 a" "entriesAtLeast 1 b" "join a b = Inr c"
  shows "entriesAtLeast 1 c \<and> wellFormed c"
proof (cases "known a \<and> known b")
  case True
  let ?n = "getRank a"
  have len: "length (contiguity a) = ?n" "length (contiguity b) = ?n"
    "length (divisibility a) = ?n" "length (divisibility b) = ?n"
    "length (constancy a) = ?n" "length (constancy b) = ?n"
    using assms(1,2,3) by (simp_all add: wellFormed_def getRank_def)
  have c: "c = \<lparr>contiguity = map (\<lambda>d. gcd64 (contiguity a ! d) (contiguity b ! d)) [0..<?n],
             divisibility = map (\<lambda>d. gcd64 (divisibility a ! d) (divisibility b ! d)) [0..<?n],
             constancy = map (\<lambda>d. gcd64 (constancy a ! d) (constancy b ! d)) [0..<?n],
             constantValue =
               (if constantValue a \<noteq> None \<and> constantValue b \<noteq> None \<and>
                   constantValue a = constantValue b
                then constantValue a else None)\<rparr>"
    using True assms(6)
    by (simp add: join_def getContiguity_def getDivisibility_def getConstancy_def)
  show ?thesis
    using assms(4,5) len
    by (simp add: c entriesAtLeast_def wellFormed_def list_all_map_gcd64_positive)
next
  case False
  then have "c = a \<or> c = b"
    using assms(6) by (auto simp add: join_def split: if_splits)
  then show ?thesis using assms(1,2,4,5) by auto
qed

text \<open>
  C9. Both operands have every entry at least 1 (contiguity 1, divisibility \<open>2\<^sup>3\<^sup>2\<close>,
  constancy 1); the divisibility that the multiplication visitor computes from them
  is 0.
\<close>

theorem MulIOp_entry_below_one:
  "wellFormed overflowOperand \<and> known overflowOperand \<and> entriesAtLeast 1 overflowOperand \<and>
   sint (MulIOp_getDivisibility overflowOperand overflowOperand 0) = 0 \<and>
   \<not> 1 \<le> sint (MulIOp_getDivisibility overflowOperand overflowOperand 0)"
  by (simp add: MulIOp_getDivisibility_def overflowOperand_def getDivisibility_def
      wellFormed_def known_def getRank_def entriesAtLeast_def)

section \<open>Division and remainder\<close>

text \<open>
  C1. With both constants present and the divisor's constant zero, the hooks
  \<^verbatim>\<open>getConstantValue\<close> of the division and of the remainder visitor evaluate
  \<^verbatim>\<open>lhs / 0\<close> and \<^verbatim>\<open>lhs % 0\<close>: there is no test of the divisor.
\<close>

theorem DivOp_RemOp_zero_divisor:
  "DivOp_getConstantValue resTy (lhs\<lparr>constantValue := Some 6\<rparr>) (rhs\<lparr>constantValue := Some 0\<rparr>) =
     Inl DivisionByZero \<and>
   RemOp_getConstantValue resTy (lhs\<lparr>constantValue := Some 6\<rparr>) (rhs\<lparr>constantValue := Some 0\<rparr>) =
     Inl DivisionByZero"
  by (simp add: DivOp_getConstantValue_def RemOp_getConstantValue_def checked_div_def
      checked_rem_def)

text \<open>
  C2, as the claim states it: with the lhs fully contiguous and the rhs fully constant
  along the axis, the contiguity of a division is said to be raised to
  \<open>gcd(contL, gcd(divL, divR))\<close>, here 4. The hook \<^verbatim>\<open>DivOpAxisInfoVisitor::getContiguity\<close>
  returns 1: it only looks for a divisor that is the constant 1.
\<close>

theorem DivOp_getContiguity_counterexample:
  "isContiguousDim contiguousOperand [4] 0 \<and> isConstantDim constantOperand [4] 0 \<and>
   gcd64 (getContiguity contiguousOperand 0)
     (gcd64 (getDivisibility contiguousOperand 0) (getDivisibility constantOperand 0)) = 4 \<and>
   DivOp_getContiguity tensor4 contiguousOperand constantOperand 0 = 1"
  by (simp add: isContiguousDim_def isConstantDim_def contiguousOperand_def constantOperand_def
      getContiguity_def getDivisibility_def getConstancy_def DivOp_getContiguity_def)

lemma DivOp_getContiguity_eq:
  "DivOp_getContiguity resTy lhs rhs d =
     (if constantValue rhs = Some 1 then getContiguity lhs d else 1)"
  by (cases "constantValue rhs") (simp_all add: DivOp_getContiguity_def)

lemma sint_DivOp_getConstancy:
  assumes "wellFormed lhs" "wellFormed rhs" "entriesAtLeast 1 lhs" "entriesAtLeast 1 rhs"
    and "d < getRank lhs" "d < getRank rhs"
  shows "sint (DivOp_getConstancy (RankedTensorType shape encoding) lhs rhs d) =
     (if isContiguousDim lhs shape d \<and> isConstantDim rhs shape d
      then max (gcd (sint (getConstancy lhs d)) (sint (getConstancy rhs d)))
               (gcd (sint (getContiguity lhs d))
                  (gcd (sint (getDivisibility lhs d)) (sint (getDivisibility rhs d))))
      else gcd (sint (getConstancy lhs d)) (sint (getConstancy rhs d)))"
proof -
  note l = entry_bounds [OF assms(1,3,5)]
  note r = entry_bounds [OF assms(2,4,6)]
  note n = sint_gcd64_nested(1) [OF l(1) l(2) r(2)]
  show ?thesis
    by (simp add: DivOp_getConstancy_def Let_def sint_std_max sint_gcd64_positive l r n)
qed

lemma sint_RemOp_getContiguity:
  assumes "wellFormed lhs" "wellFormed rhs" "entriesAtLeast 1 lhs" "entriesAtLeast 1 rhs"
    and "d < getRank lhs" "d < getRank rhs"
  shows "sint (RemOp_getContiguity (RankedTensorType shape encoding) lhs rhs d) =
     (if isContiguousDim lhs shape d \<and> isConstantDim rhs shape d
      then gcd (sint (getContiguity lhs d))
             (gcd (sint (getDivisibility lhs d)) (sint (getDivisibility rhs d)))
      else 1)"
proof -
  note l = entry_bounds [OF assms(1,3,5)]
  note r = entry_bounds [OF assms(2,4,6)]
  note n = sint_gcd64_nested [OF l(1) l(2) r(2)]
  have "max 1 (sint (gcd64 (getContiguity lhs d)
                 (gcd64 (getDivisibility lhs d) (getDivisibility rhs d)))) =
        gcd (sint (getContiguity lhs d))
          (gcd (sint (getDivisibility lhs d)) (sint (getDivisibility rhs d)))"
    using n by simp
  then show ?thesis
    by (simp add: RemOp_getContiguity_def Let_def sint_std_max)
qed

text \<open>
  C2, amended. The contiguity of a division along axis \<open>d\<close> is 1 by default and is the
  lhs contiguity when the rhs has the constant value 1. On a ranked-tensor result and
  operands with entries at least 1, it is the constancy of the division that is raised
  to \<open>gcd(contL, gcd(divL, divR))\<close> (by a maximum with \<open>gcd(constL, constR)\<close>) when the
  lhs is fully contiguous and the rhs fully constant along \<open>d\<close>; the contiguity of a
  remainder is 1 by default and is \<open>gcd(contL, gcd(divL, divR))\<close> under that condition.
\<close>

theorem DivOp_RemOp_contiguity:
  "DivOp_getContiguity resTy lhs rhs d =
     (if constantValue rhs = Some 1 then getContiguity lhs d else 1) \<and>
   (wellFormed lhs \<and> wellFormed rhs \<and> entriesAtLeast 1 lhs \<and> entriesAtLeast 1 rhs \<and>
    d < getRank lhs \<and> d < getRank rhs \<longrightarrow>
      sint (DivOp_getConstancy (RankedTensorType shape encoding) lhs rhs d) =
        (if isContiguousDim lhs shape d \<and> isConstantDim rhs shape d
         then max (gcd (sint (getConstancy lhs d)) (sint (getConstancy rhs d)))
                  (gcd (sint (getContiguity lhs d))
                     (gcd (sint (getDivisibility lhs d)) (sint (getDivisibility rhs d))))
         else gcd (sint (getConstancy lhs d)) (sint (getConstancy rhs d))) \<and>
      sint (RemOp_getContiguity (RankedTensorType shape encoding) lhs rhs d) =
        (if isContiguousDim lhs shape d \<and> isConstantDim rhs shape d
         then gcd (sint (getContiguity lhs d))
                (gcd (sint (getDivisibility lhs d)) (sint (getDivisibility rhs d)))
         else 1))"
  using DivOp_getContiguity_eq [of resTy lhs rhs d]
    sint_DivOp_getConstancy [of lhs rhs d shape encoding]
    sint_RemOp_getContiguity [of lhs rhs d shape encoding]
  by blast

theorem DivOp_RemOp_contiguity_witness:
  "DivOp_getContiguity tensor4 contiguousOperand constantOperand 0 = 1 \<and>
   sint (DivOp_getConstancy tensor4 contiguousOperand constantOperand 0) = 4 \<and>
   sint (RemOp_getContiguity tensor4 contiguousOperand constantOperand 0) = 4 \<and>
   sint (RemOp_getContiguity tensor4 constantOperand contiguousOperand 0) = 1"
  using DivOp_RemOp_contiguity [of tensor4 contiguousOperand constantOperand 0 "[4]" exampleLayout]
    DivOp_RemOp_contiguity [of tensor4 constantOperand contiguousOperand 0 "[4]" exampleLayout]
  by (simp add: tensor4_def contiguousOperand_def constantOperand_def wellFormed_def
      entriesAtLeast_def getRank_def getContiguity_def getDivisibility_def getConstancy_def
      isContiguousDim_def isConstantDim_def)

section \<open>Integer comparison\<close>

lemma sint_CmpOp_constHint:
  assumes "wellFormed lhs" "wellFormed rhs" "entriesAtLeast 1 lhs" "entriesAtLeast 1 rhs"
    and "d < getRank lhs" "d < getRank rhs"
    and "constantValue lhs = None \<or> constantValue rhs = None"
  shows "sint (CmpOp_constHint predicate shape lhs rhs d) =
     (if (notGePredicate predicate \<and> isContiguousDim lhs shape d \<and> isConstantDim rhs shape d) \<or>
         (notSePredicate predicate \<and> isConstantDim lhs shape d \<and> isContiguousDim rhs shape d)
      then max (gcd (sint (getConstancy lhs d)) (sint (getConstancy rhs d)))
               (gcd (sint (getContiguity lhs d))
                  (gcd (sint (getDivisibility lhs d)) (sint (getDivisibility rhs d))))
      else gcd (sint (getConstancy lhs d)) (sint (getConstancy rhs d)))"
proof -
  note l = entry_bounds [OF assms(1,3,5)]
  note r = entry_bounds [OF assms(2,4,6)]
  note n = sint_gcd64_nested(1) [OF l(1) l(2) r(2)]
  have c: "\<not> (constantValue lhs \<noteq> None \<and> constantValue rhs \<noteq> None)"
    using assms(7) by auto
  show ?thesis
    unfolding CmpOp_constHint_def Let_def if_not_P [OF c]
    by (simp add: sint_std_max sint_gcd64_positive l r n)
qed

text \<open>
  The branch commented "Case 3: lhs all constants, rhs all contiguous" raises the
  constancy with \<^verbatim>\<open>lhsInfo.getContiguity(d)\<close>, the contiguity of the constant operand.
  Where only that branch applies and the constant lhs has contiguity 1, as a splat or
  a broadcast has, the raise does nothing: the constancy stays \<open>gcd(constL, constR)\<close>,
  whatever the contiguity of the rhs.
\<close>

lemma CmpOp_case3_without_effect:
  assumes "wellFormed lhs" "wellFormed rhs" "entriesAtLeast 1 lhs" "entriesAtLeast 1 rhs"
    and "d < getRank lhs" "d < getRank rhs"
    and "constantValue lhs = None \<or> constantValue rhs = None"
    and "getContiguity lhs d = 1"
  shows "sint (CmpOp_constHint predicate shape lhs rhs d) =
         gcd (sint (getConstancy lhs d)) (sint (getConstancy rhs d))"
proof -
  note l = entry_bounds [OF assms(1,3,5)]
  note r = entry_bounds [OF assms(2,4,6)]
  have "1 \<le> gcd (sint (getConstancy lhs d)) (sint (getConstancy rhs d))"
    using gcd64_positive [OF l(3) r(3)] sint_gcd64_positive [OF l(3) r(3)] by simp
  then show ?thesis
    using sint_CmpOp_constHint [OF assms(1-7), of predicate shape] assms(8)
    by simp
qed

text \<open>
  C3. The lhs is fully constant and the rhs fully contiguous along an axis of extent
  4, no constant value is known and the predicate \<open>slt\<close> is outside the \<open>\<le>\<close> family:
  the constancy should be raised to
  \<open>gcd(contiguity of the contiguous operand, gcd(divL, divR)) = gcd(4, gcd(4, 4)) = 4\<close>.
  The visitor returns \<open>max(gcd(4, 1), gcd(1, gcd(4, 4))) = 1\<close>, because it takes the
  contiguity of the lhs. With the operands exchanged, the sibling branch (lhs
  contiguous, rhs constant) does raise the constancy to 4.
\<close>

theorem CmpOp_symmetric_case_not_raised:
  "notSePredicate slt \<and>
   isConstantDim constantOperand [4] 0 \<and> isContiguousDim contiguousOperand [4] 0 \<and>
   constantValue constantOperand = None \<and>
   gcd64 (getContiguity contiguousOperand 0)
     (gcd64 (getDivisibility constantOperand 0) (getDivisibility contiguousOperand 0)) = 4 \<and>
   getConstancy
     (CmpOp_getAxisInfo \<lparr>getPredicate = slt, cmpResultType = tensor4\<rparr>
        [constantOperand, contiguousOperand]) 0 = 1 \<and>
   getConstancy
     (CmpOp_getAxisInfo \<lparr>getPredicate = slt, cmpResultType = tensor4\<rparr>
        [contiguousOperand, constantOperand]) 0 = 4"
  by (simp add: notSePredicate_def notGePredicate_def isContiguousDim_def isConstantDim_def
      contiguousOperand_def constantOperand_def tensor4_def getContiguity_def
      getDivisibility_def getConstancy_def CmpOp_getAxisInfo_def CmpOp_constHint_def
      gcd64_numeral_examples std_max_def word_sless_alt)

section \<open>Alignment queries: properties\<close>

lemma uint_ucast_small:
  assumes "0 \<le> sint (w :: int64)" "sint w < 2 ^ 32"
  shows "uint (ucast w :: uint32) = sint w"
proof -
  have "sint w < 2 ^ 64"
    using assms(2) by simp
  then have "uint w = sint w"
    using assms(1) by (simp add: uint_sint take_bit_int_eq_self)
  moreover have "uint (ucast w :: uint32) = take_bit 32 (uint w)"
    by (simp add: unsigned_ucast_eq)
  ultimately show ?thesis
    using assms by (simp add: take_bit_int_eq_self)
qed

lemma uint_std_max_unsigned: "uint (std_max_unsigned a b) = max (uint a) (uint b)"
  by (simp add: std_max_unsigned_def word_less_def max_def)

lemma queries_not_ranked:
  assumes "valueType v = OtherType"
  shows "getPtrVectorSize st v = Inr 1" "getPtrAlignment st v = Inr 1" "getMaskAlignment st v = Inr 1"
  using assms by (simp_all add: getPtrVectorSize_def getPtrAlignment_def getMaskAlignment_def)

lemma getPtrAlignment_ranked:
  assumes "valueType v = RankedTensorType shape layout" "st v = Some e"
  shows "getPtrAlignment st v =
     Inr (ucast (std_min (getDivisibility (latticeValue e) (layoutOrder layout ! 0))
                         (getContiguity (latticeValue e) (layoutOrder layout ! 0))))"
  using assms by (simp add: getPtrAlignment_def lookupValue_def Let_def)

lemma getMaskAlignment_ranked:
  assumes "valueType v = RankedTensorType shape layout" "st v = Some e"
  shows "getMaskAlignment st v =
     Inr (std_max_unsigned (ucast (getConstancy (latticeValue e) (layoutOrder layout ! 0))) 1)"
  using assms by (simp add: getMaskAlignment_def lookupValue_def Let_def)

text \<open>
  C7. For a value that is not a ranked tensor each of the three queries returns 1. For
  a ranked tensor with a lattice element, \<open>getPtrAlignment\<close> returns the minimum of the
  divisibility and the contiguity along \<open>order[0]\<close>, and \<open>getMaskAlignment\<close> the maximum
  of the constancy along \<open>order[0]\<close> and 1, as \<^verbatim>\<open>unsigned\<close> values: the equations hold
  for the numbers whenever the minimum (resp. the constancy) lies in the range of
  \<^verbatim>\<open>unsigned\<close>.
\<close>

theorem alignment_queries:
  "(valueType v = OtherType \<longrightarrow>
      getPtrVectorSize st v = Inr 1 \<and> getPtrAlignment st v = Inr 1 \<and>
      getMaskAlignment st v = Inr 1) \<and>
   (valueType v = RankedTensorType shape layout \<and> st v = Some e \<and>
    fastestAxis = layoutOrder layout ! 0 \<longrightarrow>
      getPtrAlignment st v =
        Inr (ucast (std_min (getDivisibility (latticeValue e) fastestAxis)
                            (getContiguity (latticeValue e) fastestAxis))) \<and>
      getMaskAlignment st v =
        Inr (std_max_unsigned (ucast (getConstancy (latticeValue e) fastestAxis)) 1) \<and>
      (0 \<le> min (sint (getDivisibility (latticeValue e) fastestAxis))
               (sint (getContiguity (latticeValue e) fastestAxis)) \<and>
       min (sint (getDivisibility (latticeValue e) fastestAxis))
           (sint (getContiguity (latticeValue e) fastestAxis)) < 2 ^ 32 \<longrightarrow>
         (\<exists>a. getPtrAlignment st v = Inr a \<and>
              uint a = min (sint (getDivisibility (latticeValue e) fastestAxis))
                           (sint (getContiguity (latticeValue e) fastestAxis)))) \<and>
      (0 \<le> sint (getConstancy (latticeValue e) fastestAxis) \<and>
       sint (getConstancy (latticeValue e) fastestAxis) < 2 ^ 32 \<longrightarrow>
         (\<exists>a. getMaskAlignment st v = Inr a \<and>
              uint a = max (sint (getConstancy (latticeValue e) fastestAxis)) 1)))"
proof (intro conjI impI)
  assume "valueType v = OtherType"
  then show "getPtrVectorSize st v = Inr 1" "getPtrAlignment st v = Inr 1"
    "getMaskAlignment st v = Inr 1"
    by (rule queries_not_ranked)+
next
  assume h: "valueType v = RankedTensorType shape layout \<and> st v = Some e \<and>
    fastestAxis = layoutOrder layout ! 0"
  then show p: "getPtrAlignment st v =
        Inr (ucast (std_min (getDivisibility (latticeValue e) fastestAxis)
                            (getContiguity (latticeValue e) fastestAxis)))"
    by (simp add: getPtrAlignment_ranked)
  from h show m: "getMaskAlignment st v =
        Inr (std_max_unsigned (ucast (getConstancy (latticeValue e) fastestAxis)) 1)"
    by (simp add: getMaskAlignment_ranked)
  {
    assume r: "0 \<le> min (sint (getDivisibility (latticeValue e) fastestAxis))
               (sint (getContiguity (latticeValue e) fastestAxis)) \<and>
       min (sint (getDivisibility (latticeValue e) fastestAxis))
           (sint (getContiguity (latticeValue e) fastestAxis)) < 2 ^ 32"
    have "uint (ucast (std_min (getDivisibility (latticeValue e) fastestAxis)
                            (getContiguity (latticeValue e) fastestAxis)) :: uint32) =
          min (sint (getDivisibility (latticeValue e) fastestAxis))
              (sint (getContiguity (latticeValue e) fastestAxis))"
      using r by (simp add: uint_ucast_small sint_std_min)
    with p show "\<exists>a. getPtrAlignment st v = Inr a \<and>
              uint a = min (sint (getDivisibility (latticeValue e) fastestAxis))
                           (sint (getContiguity (latticeValue e) fastestAxis))"
      by simp
  }
  {
    assume r: "0 \<le> sint (getConstancy (latticeValue e) fastestAxis) \<and>
       sint (getConstancy (latticeValue e) fastestAxis) < 2 ^ 32"
    have "uint (std_max_unsigned (ucast (getConstancy (latticeValue e) fastestAxis)) 1) =
          max (sint (getConstancy (latticeValue e) fastestAxis)) 1"
      using r by (simp add: uint_std_max_unsigned uint_ucast_small)
    with m show "\<exists>a. getMaskAlignment st v = Inr a \<and>
              uint a = max (sint (getConstancy (latticeValue e) fastestAxis)) 1"
      by simp
  }
qed

theorem alignment_queries_witness:
  "getPtrAlignment exampleStore ptrValue = Inr 8 \<and>
   getMaskAlignment exampleStore ptrValue = Inr 4 \<and>
   getPtrVectorSize exampleStore ptrValue = Inr 4 \<and>
   getPtrAlignment exampleStore scalarValue = Inr 1 \<and>
   getMaskAlignment exampleStore scalarValue = Inr 1 \<and>
   getPtrVectorSize exampleStore scalarValue = Inr 1"
  using
    alignment_queries [of scalarValue exampleStore]
    alignment_queries [of ptrValue exampleStore "[32]" "\<lparr>layoutOrder = [0], sizePerThread = [4]\<rparr>"
      "\<lparr>latticeValue = ptrInfo, atFixpoint = False\<rparr>" 0]
  by (simp add: exampleStore_def ptrValue_def scalarValue_def ptrInfo_def getPtrVectorSize_def
      getDivisibility_def getContiguity_def getConstancy_def std_min_def std_max_unsigned_def
      std_min_unsigned_def Let_def)

section \<open>The pessimistic fixpoint\<close>

lemma getPessimisticValueState_result:
  "blockArgument v = None \<Longrightarrow>
   getPessimisticValueState v = pessimisticWith (typeRank (valueType v)) 1"
  by (simp add: getPessimisticValueState_def)

lemma known_pessimisticWith: "0 < n \<Longrightarrow> known (pessimisticWith n h)"
  by (simp add: known_def getRank_def pessimisticWith_def)

lemma map_gcd64_ones: "map (\<lambda>d. gcd64 (replicate n 1 ! d) (f d)) [0..<n] = replicate n 1"
proof -
  have "map (\<lambda>d. gcd64 (replicate n 1 ! d) (f d)) [0..<n] = map (\<lambda>d. 1) [0..<n]"
    by (rule map_cong [OF refl]) simp
  then show ?thesis by (simp add: map_replicate_const)
qed

text \<open>
  The all-ones record without a constant absorbs the join with every record of its rank:
  \<open>gcd(1, x) = 1\<close> in the program's gcd for every \<open>x\<close>.
\<close>

lemma join_pessimistic_absorbs:
  assumes "0 < n" "getRank a = n"
  shows "join (pessimisticWith n 1) a = Inr (pessimisticWith n 1)"
proof -
  have "known (pessimisticWith n 1)" using assms(1) by (rule known_pessimisticWith)
  moreover have "known a" using assms by (simp add: known_def)
  ultimately show ?thesis
    by (simp add: join_def getRank_def getContiguity_def getDivisibility_def
        getConstancy_def pessimisticWith_def map_gcd64_ones)
qed

text \<open>A visit never fails: \<open>join\<close> is unreachable only for two unknown records, and the
  entry point joins a known one.\<close>

lemma LatticeElement_join_total:
  assumes "known cur"
  shows "\<exists>c e'. LatticeElement_join e cur = Inr (c, e')"
proof (cases "atFixpoint e")
  case True
  then show ?thesis by (simp add: LatticeElement_join_def)
next
  case False
  have "\<exists>x. join (latticeValue e) cur = Inr x"
    using assms by (simp add: join_def)
  then obtain x where "join (latticeValue e) cur = Inr x" ..
  with False show ?thesis by (simp add: LatticeElement_join_def)
qed

lemma joinResults_total:
  assumes "known cur"
  shows "\<exists>c st'. joinResults cur results r st = Inr (c, st')"
proof (induction results arbitrary: r st)
  case Nil
  show ?case by simp
next
  case (Cons w ws)
  from LatticeElement_join_total [OF assms] obtain c1 e1 where
    j: "LatticeElement_join (getLatticeElement st w) cur = Inr (c1, e1)" by blast
  have "joinResults cur (w # ws) r st = joinResults cur ws (changeOr r c1) (st(w \<mapsto> e1))"
    using j by simp
  with Cons.IH [of "changeOr r c1" "st(w \<mapsto> e1)"] show ?case by (simp only:)
qed

lemma visitOperation_total: "\<exists>c st'. visitOperation cur results st = Inr (c, st')"
proof (cases "getRank cur = 0")
  case True
  then show ?thesis
    by (cases "markAllPessimisticFixpoint results st") (simp add: visitOperation_def)
next
  case False
  then have "known cur" by (simp add: known_def)
  from joinResults_total [OF this] False show ?thesis
    by (simp add: visitOperation_def)
qed

lemma visitAll_total: "\<exists>st'. visitAll visits st = Inr st'"
proof (induction visits arbitrary: st)
  case Nil
  show ?case by simp
next
  case (Cons visit visits)
  obtain cur results where visit: "visit = (cur, results)" by (cases visit)
  from visitOperation_total obtain c st1 where
    "visitOperation cur results st = Inr (c, st1)" by blast
  with Cons.IH [of st1] visit show ?case by simp
qed

lemma snd_markAll_Cons:
  "snd (markAllPessimisticFixpoint (w # ws) st) =
   snd (markAllPessimisticFixpoint ws
          (st(w \<mapsto> snd (markPessimisticFixpoint w (getLatticeElement st w)))))"
  by (simp split: prod.splits)

lemma snd_markPessimisticFixpoint:
  "snd (markPessimisticFixpoint v e) =
   \<lparr>latticeValue = getPessimisticValueState v, atFixpoint = True\<rparr>"
  by (simp add: markPessimisticFixpoint_def Let_def)

lemma markAll_notin:
  "v \<notin> set results \<Longrightarrow> snd (markAllPessimisticFixpoint results st) v = st v"
proof (induction results arbitrary: st)
  case Nil
  then show ?case by simp
next
  case (Cons w ws)
  then have "v \<notin> set ws" "w \<noteq> v" by auto
  from Cons.IH [OF this(1)] this(2) show ?case
    by (simp only: snd_markAll_Cons) simp
qed

lemma markAll_in:
  "v \<in> set results \<Longrightarrow>
   snd (markAllPessimisticFixpoint results st) v =
     Some \<lparr>latticeValue = getPessimisticValueState v, atFixpoint = True\<rparr>"
proof (induction results arbitrary: st)
  case Nil
  then show ?case by simp
next
  case (Cons w ws)
  show ?case
  proof (cases "v \<in> set ws")
    case True
    from Cons.IH [OF True] show ?thesis
      by (simp only: snd_markAll_Cons)
  next
    case False
    with Cons.prems have "w = v" by simp
    with markAll_notin [OF False] show ?thesis
      by (simp only: snd_markAll_Cons snd_markPessimisticFixpoint) simp
  qed
qed

lemma markAll_fixed:
  assumes "st v = Some \<lparr>latticeValue = getPessimisticValueState v, atFixpoint = True\<rparr>"
  shows "snd (markAllPessimisticFixpoint results st) v =
     Some \<lparr>latticeValue = getPessimisticValueState v, atFixpoint = True\<rparr>"
  using assms markAll_in [of v results st] markAll_notin [of v results st]
  by (cases "v \<in> set results") simp_all

lemma joinResults_fixed:
  assumes "st v = Some e" "atFixpoint e" "joinResults cur results r st = Inr (c, st')"
  shows "st' v = Some e"
  using assms
proof (induction results arbitrary: st r)
  case Nil
  then show ?case by simp
next
  case (Cons w ws)
  from Cons.prems(3) obtain c1 e1 where
    j: "LatticeElement_join (getLatticeElement st w) cur = Inr (c1, e1)"
    and rest: "joinResults cur ws (changeOr r c1) (st(w \<mapsto> e1)) = Inr (c, st')"
    by (auto split: sum.splits)
  have "(st(w \<mapsto> e1)) v = Some e"
  proof (cases "w = v")
    case True
    then have "getLatticeElement st w = e"
      using Cons.prems(1) by (simp add: getLatticeElement_def)
    with j Cons.prems(2) have "e1 = e"
      by (simp add: LatticeElement_join_def)
    with True show ?thesis by simp
  next
    case False
    with Cons.prems(1) show ?thesis by simp
  qed
  from Cons.IH [OF this Cons.prems(2) rest] show ?case .
qed

lemma visitOperation_fixed:
  assumes "st v = Some \<lparr>latticeValue = getPessimisticValueState v, atFixpoint = True\<rparr>"
    and "visitOperation cur results st = Inr (c, st')"
  shows "st' v = Some \<lparr>latticeValue = getPessimisticValueState v, atFixpoint = True\<rparr>"
proof (cases "getRank cur = 0")
  case True
  with assms(2) have "st' = snd (markAllPessimisticFixpoint results st)"
    by (auto simp add: visitOperation_def)
  with assms(1) show ?thesis by (simp add: markAll_fixed)
next
  case False
  with assms(2) have "joinResults cur results NoChange st = Inr (c, st')"
    by (simp add: visitOperation_def)
  from joinResults_fixed [OF assms(1) _ this] show ?thesis by simp
qed

lemma visitAll_fixed:
  assumes "st v = Some \<lparr>latticeValue = getPessimisticValueState v, atFixpoint = True\<rparr>"
    and "visitAll visits st = Inr st'"
  shows "st' v = Some \<lparr>latticeValue = getPessimisticValueState v, atFixpoint = True\<rparr>"
  using assms
proof (induction visits arbitrary: st)
  case Nil
  then show ?case by simp
next
  case (Cons visit visits)
  obtain cur results where visit: "visit = (cur, results)" by (cases visit)
  from Cons.prems(2) visit obtain c st1 where
    one: "visitOperation cur results st = Inr (c, st1)"
    and rest: "visitAll visits st1 = Inr st'"
    by (auto split: sum.splits)
  from visitOperation_fixed [OF Cons.prems(1) one] have "st1 v =
    Some \<lparr>latticeValue = getPessimisticValueState v, atFixpoint = True\<rparr>" .
  from Cons.IH [OF this rest] show ?case .
qed

lemma visitOperation_unknown:
  assumes "getRank cur = 0" "v \<in> set results"
  shows "\<exists>c st'. visitOperation cur results st = Inr (c, st') \<and>
           st' v = Some \<lparr>latticeValue = getPessimisticValueState v, atFixpoint = True\<rparr> \<and>
           (\<forall>visits. \<exists>st''. visitAll visits st' = Inr st'' \<and> st'' v = st' v)"
proof -
  obtain c st' where m: "markAllPessimisticFixpoint results st = (c, st')"
    by (cases "markAllPessimisticFixpoint results st")
  then have v: "visitOperation cur results st = Inr (c, st')"
    using assms(1) by (simp add: visitOperation_def)
  have f: "st' v = Some \<lparr>latticeValue = getPessimisticValueState v, atFixpoint = True\<rparr>"
    using markAll_in [OF assms(2), of st] m by simp
  have "\<exists>st''. visitAll visits st' = Inr st'' \<and> st'' v = st' v" for visits
  proof -
    from visitAll_total obtain st'' where r: "visitAll visits st' = Inr st''" ..
    from visitAll_fixed [of st' v, OF f r] f r show ?thesis by simp
  qed
  with v f show ?thesis by blast
qed

text \<open>
  C8. When the transfer step produces the unknown AxisInfo, the entry point gives every
  result of the operation the pessimistic default and marks it fixed; every later
  sequence of visits runs to its end and leaves the lattice element of such a result as
  it is, whatever the transfer step produces then. For an operation result of rank at
  least 1 the pessimistic default is the all-ones record of that rank without a
  constant, and its join with any well-formed AxisInfo of that rank is itself.
\<close>

theorem unknown_result_permanently_fixed:
  "getRank cur = 0 \<and> v \<in> set results \<longrightarrow>
     (\<exists>c st'. visitOperation cur results st = Inr (c, st') \<and>
        st' v = Some \<lparr>latticeValue = getPessimisticValueState v, atFixpoint = True\<rparr> \<and>
        (\<forall>visits. \<exists>st''. visitAll visits st' = Inr st'' \<and> st'' v = st' v)) \<and>
     (blockArgument v = None \<and> 0 < typeRank (valueType v) \<longrightarrow>
        getPessimisticValueState v =
          \<lparr>contiguity = replicate (typeRank (valueType v)) 1,
           divisibility = replicate (typeRank (valueType v)) 1,
           constancy = replicate (typeRank (valueType v)) 1,
           constantValue = None\<rparr> \<and>
        (\<forall>a. wellFormed a \<and> getRank a = typeRank (valueType v) \<longrightarrow>
             join (getPessimisticValueState v) a = Inr (getPessimisticValueState v)))"
  (is "_ \<longrightarrow> ?fixed \<and> (?result \<longrightarrow> ?default)")
proof (intro impI, elim conjE)
  assume r: "getRank cur = 0" and v: "v \<in> set results"
  have ?fixed
    by (rule visitOperation_unknown [OF r v])
  moreover have ?default if ?result
    using that getPessimisticValueState_result [of v]
      join_pessimistic_absorbs [of "typeRank (valueType v)"]
    by (simp add: pessimisticWith_def)
  ultimately show "?fixed \<and> (?result \<longrightarrow> ?default)"
    by blast
qed

theorem unknown_result_permanently_fixed_witness:
  "(case visitOperation unknownAxisInfo [scalarValue] exampleStore of
      Inl err \<Rightarrow> False
    | Inr (c, st') \<Rightarrow>
        st' scalarValue =
          Some \<lparr>latticeValue =
                  \<lparr>contiguity = [1], divisibility = [1], constancy = [1], constantValue = None\<rparr>,
                atFixpoint = True\<rparr> \<and>
        (case visitAll [(ptrInfo, [scalarValue]), (exampleA, [scalarValue])] st' of
           Inl err \<Rightarrow> False
         | Inr st'' \<Rightarrow> st'' scalarValue = st' scalarValue)) \<and>
   join (getPessimisticValueState scalarValue) ptrInfo = Inr (getPessimisticValueState scalarValue)"
proof -
  have hyp: "getRank unknownAxisInfo = 0 \<and> scalarValue \<in> set [scalarValue]"
    by (simp add: getRank_def unknownAxisInfo_def)
  have hyp': "blockArgument scalarValue = None \<and> 0 < typeRank (valueType scalarValue)"
    by (simp add: scalarValue_def typeRank_def)
  have hyp'': "wellFormed ptrInfo \<and> getRank ptrInfo = typeRank (valueType scalarValue)"
    by (simp add: scalarValue_def typeRank_def ptrInfo_def wellFormed_def getRank_def)
  note t = unknown_result_permanently_fixed
    [of unknownAxisInfo scalarValue "[scalarValue]" exampleStore, THEN mp, OF hyp]
  from t hyp' hyp'' have j: "join (getPessimisticValueState scalarValue) ptrInfo =
      Inr (getPessimisticValueState scalarValue)"
    by blast
  from t obtain c st' where
    v: "visitOperation unknownAxisInfo [scalarValue] exampleStore = Inr (c, st')"
    and f: "st' scalarValue =
      Some \<lparr>latticeValue = getPessimisticValueState scalarValue, atFixpoint = True\<rparr>"
    and later: "\<forall>visits. \<exists>st''. visitAll visits st' = Inr st'' \<and> st'' scalarValue = st' scalarValue"
    by blast
  from later obtain st'' where
    "visitAll [(ptrInfo, [scalarValue]), (exampleA, [scalarValue])] st' = Inr st''"
    "st'' scalarValue = st' scalarValue"
    by blast
  moreover have "getPessimisticValueState scalarValue =
      \<lparr>contiguity = [1], divisibility = [1], constancy = [1], constantValue = None\<rparr>"
    by (simp add: getPessimisticValueState_def scalarValue_def typeRank_def pessimisticWith_def)
  ultimately show ?thesis using v f j by simp
qed

section \<open>Comparisons and selects that are not tensors\<close>

lemma CmpOp_getAxisInfo_not_ranked:
  "cmpResultType op = OtherType \<Longrightarrow> CmpOp_getAxisInfo op operands = unknownAxisInfo"
  by (simp add: CmpOp_getAxisInfo_def)

lemma SelectOp_getAxisInfo_not_ranked:
  "SelectOp_getAxisInfo OtherType operands = unknownAxisInfo"
  by (simp add: SelectOp_getAxisInfo_def)

lemma getRank_unknownAxisInfo: "getRank unknownAxisInfo = 0"
  by (simp add: getRank_def unknownAxisInfo_def)

lemma scalar_pessimistic:
  "valueType v = OtherType \<Longrightarrow> blockArgument v = None \<Longrightarrow>
   getPessimisticValueState v =
     \<lparr>contiguity = [1], divisibility = [1], constancy = [1], constantValue = None\<rparr>"
  by (simp add: getPessimisticValueState_def typeRank_def pessimisticWith_def)

text \<open>
  C10. For a comparison and for a select whose result type is not a ranked tensor the
  visitor returns the unknown AxisInfo; the entry point then gives every result the
  pessimistic default, marked fixed, and every later sequence of visits runs to its end
  and leaves it as it is. For a scalar
  operation result that default is rank 1 with contiguity, divisibility and constancy 1
  and no constant.
\<close>

theorem scalar_cmp_select_pessimistic:
  "cmpResultType op = OtherType \<and> v \<in> set results \<longrightarrow>
     CmpOp_getAxisInfo op cmpOperands = unknownAxisInfo \<and>
     SelectOp_getAxisInfo OtherType selectOperands = unknownAxisInfo \<and>
     getRank unknownAxisInfo = 0 \<and>
     (\<exists>c st'. visitOperation (CmpOp_getAxisInfo op cmpOperands) results st = Inr (c, st') \<and>
        st' v = Some \<lparr>latticeValue = getPessimisticValueState v, atFixpoint = True\<rparr> \<and>
        (\<forall>visits. \<exists>st''. visitAll visits st' = Inr st'' \<and> st'' v = st' v)) \<and>
     (\<exists>c st'. visitOperation (SelectOp_getAxisInfo OtherType selectOperands) results st =
                 Inr (c, st') \<and>
        st' v = Some \<lparr>latticeValue = getPessimisticValueState v, atFixpoint = True\<rparr> \<and>
        (\<forall>visits. \<exists>st''. visitAll visits st' = Inr st'' \<and> st'' v = st' v)) \<and>
     (valueType v = OtherType \<and> blockArgument v = None \<longrightarrow>
        getPessimisticValueState v =
          \<lparr>contiguity = [1], divisibility = [1], constancy = [1], constantValue = None\<rparr>)"
  (is "_ \<longrightarrow> ?result")
proof (intro impI, elim conjE)
  assume ty: "cmpResultType op = OtherType" and v: "v \<in> set results"
  have cmp: "CmpOp_getAxisInfo op cmpOperands = unknownAxisInfo"
    using ty by (rule CmpOp_getAxisInfo_not_ranked)
  have sel: "SelectOp_getAxisInfo OtherType selectOperands = unknownAxisInfo"
    by (rule SelectOp_getAxisInfo_not_ranked)
  note fixed = visitOperation_unknown [OF getRank_unknownAxisInfo v, of st]
  show ?result
    unfolding cmp sel
    using fixed getRank_unknownAxisInfo scalar_pessimistic [of v]
    by blast
qed

theorem scalar_cmp_select_pessimistic_witness:
  "CmpOp_getAxisInfo \<lparr>getPredicate = slt, cmpResultType = OtherType\<rparr> [exampleA, exampleB] =
     unknownAxisInfo \<and>
   SelectOp_getAxisInfo OtherType [exampleA, exampleA, exampleB] = unknownAxisInfo \<and>
   (case visitOperation
           (CmpOp_getAxisInfo \<lparr>getPredicate = slt, cmpResultType = OtherType\<rparr> [exampleA, exampleB])
           [scalarValue] exampleStore of
      Inl err \<Rightarrow> False
    | Inr (c, st') \<Rightarrow>
        st' scalarValue =
          Some \<lparr>latticeValue =
                  \<lparr>contiguity = [1], divisibility = [1], constancy = [1], constantValue = None\<rparr>,
                atFixpoint = True\<rparr> \<and>
        (case visitAll [(exampleA, [scalarValue])] st' of
           Inl err \<Rightarrow> False
         | Inr st'' \<Rightarrow> st'' scalarValue = st' scalarValue))"
  using scalar_cmp_select_pessimistic
    [of "\<lparr>getPredicate = slt, cmpResultType = OtherType\<rparr>" scalarValue "[scalarValue]"
      "[exampleA, exampleB]" "[exampleA, exampleA, exampleB]" exampleStore]
  by (simp add: CmpOp_getAxisInfo_def SelectOp_getAxisInfo_def visitOperation_def
      unknownAxisInfo_def getRank_def scalarValue_def markPessimisticFixpoint_def
      getLatticeElement_def exampleStore_def ptrValue_def getPessimisticValueState_def
      typeRank_def pessimisticWith_def exampleA_def LatticeElement_join_def changeOr_def)

section \<open>Further properties\<close>

text \<open>
  On non-negative arguments the Euclidean algorithm of the source computes the
  mathematical greatest common divisor.
\<close>

theorem gcd_is_mathematical_gcd:
  "0 \<le> sint x \<and> 0 \<le> sint y \<longrightarrow> sint (gcd64 x y) = gcd (sint x) (sint y)"
  using sint_gcd64 [of x y] by blast

theorem gcd_is_mathematical_gcd_witness:
  "sint (gcd64 12 18) = 6 \<and> gcd (12 :: int) 18 = 6"
  using gcd_is_mathematical_gcd [of 12 18] by (simp add: gcd64_numeral_examples)

text \<open>
  The join of two well-formed records of equal rank whose entries are at least 1 is
  well-formed and has entries at least 1.
\<close>

theorem join_preserves_invariant:
  "wellFormed a \<and> wellFormed b \<and> getRank a = getRank b \<and>
   entriesAtLeast 1 a \<and> entriesAtLeast 1 b \<and> join a b = Inr c \<longrightarrow>
     entriesAtLeast 1 c \<and> wellFormed c"
  using join_entriesAtLeast_1 [of a b c] by blast

theorem join_preserves_invariant_witness:
  "join exampleA exampleB =
     Inr \<lparr>contiguity = [1], divisibility = [4], constancy = [1], constantValue = None\<rparr> \<and>
   entriesAtLeast 1
     \<lparr>contiguity = [1], divisibility = [4], constancy = [1], constantValue = None\<rparr> \<and>
   wellFormed
     \<lparr>contiguity = [1], divisibility = [4], constancy = [1], constantValue = None\<rparr>"
  using join_preserves_invariant [of exampleA exampleB
      "\<lparr>contiguity = [1], divisibility = [4], constancy = [1], constantValue = None\<rparr>"]
  by (simp add: exampleA_def exampleB_def known_def getRank_def wellFormed_def
      entriesAtLeast_def join_def getContiguity_def getDivisibility_def getConstancy_def
      gcd64_numeral_examples)

text \<open>
  The multiplication visitor: the divisibility is the exact product of the operands'
  divisibilities whenever that product fits in \<^verbatim>\<open>int64_t\<close>; the contiguity is the lhs
  contiguity when the rhs is the constant 1, the rhs contiguity when the lhs is the
  constant 1 (the maximum when both are), and 1 otherwise; the constancy is the gcd of
  the operands' constancies when these are not negative; and the constant is the
  \<^verbatim>\<open>int64_t\<close> product exactly when both constants are present.
\<close>

theorem MulIOp_transfer_in_range:
  "(- (2 ^ 63) \<le> sint (getDivisibility lhs d) * sint (getDivisibility rhs d) \<and>
    sint (getDivisibility lhs d) * sint (getDivisibility rhs d) < 2 ^ 63 \<longrightarrow>
      sint (MulIOp_getDivisibility lhs rhs d) =
        sint (getDivisibility lhs d) * sint (getDivisibility rhs d)) \<and>
   MulIOp_getContiguity lhs rhs d =
     (if constantValue rhs = Some 1 \<and> constantValue lhs = Some 1
      then std_max (getContiguity lhs d) (getContiguity rhs d)
      else if constantValue rhs = Some 1 then std_max (getContiguity lhs d) 1
      else if constantValue lhs = Some 1 then std_max 1 (getContiguity rhs d)
      else 1) \<and>
   (0 \<le> sint (getConstancy lhs d) \<and> 0 \<le> sint (getConstancy rhs d) \<longrightarrow>
      sint (MulIOp_getConstancy lhs rhs d) =
        gcd (sint (getConstancy lhs d)) (sint (getConstancy rhs d))) \<and>
   MulIOp_getConstantValue lhs rhs =
     (case constantValue lhs of None \<Rightarrow> None
      | Some l \<Rightarrow> (case constantValue rhs of None \<Rightarrow> None | Some r \<Rightarrow> Some (l * r)))"
  using MulIOp_getDivisibility_exact [of lhs d rhs] MulIOp_getContiguity_cases [of lhs rhs d]
    MulIOp_getConstantValue_cases [of lhs rhs]
    sint_gcd64 [of "getConstancy lhs d" "getConstancy rhs d"]
  by (simp add: MulIOp_getConstancy_def)

theorem MulIOp_transfer_in_range_witness:
  "sint (MulIOp_getDivisibility exampleA exampleB 0) = 32 \<and>
   MulIOp_getContiguity exampleA exampleB 0 = 1 \<and>
   sint (MulIOp_getConstancy exampleA exampleB 0) = 1 \<and>
   MulIOp_getConstantValue exampleA exampleB = None"
  using MulIOp_transfer_in_range [of exampleA 0 exampleB]
  by (simp add: exampleA_def exampleB_def getContiguity_def getDivisibility_def
      getConstancy_def)

end
